theory Spec2Isabelle
  imports Complex_Main
begin

section \<open>The identity and session core of the notes backend\<close>

text \<open>
  The development embeds \<^verbatim>\<open>models/User.model.ts\<close> (the User schema, its
  pre-save hook and \<^verbatim>\<open>comparePassword\<close>) and
  \<^verbatim>\<open>controllers/auth.controller.ts\<close> (the five handlers \<^verbatim>\<open>signup\<close>,
  \<^verbatim>\<open>verifyOTP\<close>, \<^verbatim>\<open>signin\<close>, \<^verbatim>\<open>googleAuth\<close>, \<^verbatim>\<open>resendOTP\<close>).

  A handler is a function of what it observes of the outside world during one call
  (a record \<open>env\<close>), of the request body and of the collection of users; it returns
  the HTTP response and the collection after the call. Every \<^verbatim>\<open>return res...\<close> and
  every way into a \<^verbatim>\<open>catch\<close> block that the handler's own inputs can cause is a
  branch: a rejected schema validation, a violated unique index, a rejected mail
  dispatch, a rejected or empty Google ticket.

  Outside the model are the failures of the surroundings, each of which would take
  the handler to its \<^verbatim>\<open>catch\<close> block and a 500: a store that cannot be reached, a
  \<^verbatim>\<open>userId\<close> that is not the text of an \<^verbatim>\<open>ObjectId\<close>, a missing \<^verbatim>\<open>JWT_SECRET\<close>.
  Calls do not interleave: a handler runs on the collection the previous one left.
\<close>

subsection \<open>Data\<close>

text \<open>
  \<^verbatim>\<open>IUser\<close>. Dates are milliseconds since the epoch, as \<^verbatim>\<open>Date.now()\<close> counts them.
  An optional field is an \<open>option\<close>. \<^verbatim>\<open>email\<close> and \<^verbatim>\<open>name\<close> are declared
  \<^verbatim>\<open>string\<close>; a value that is missing at run time is represented by the empty string,
  which the schema's \<^verbatim>\<open>required\<close> rejects exactly as it rejects a missing one. The
  \<^verbatim>\<open>createdAt\<close>/\<^verbatim>\<open>updatedAt\<close> stamps of \<^verbatim>\<open>timestamps: true\<close> are read by no
  handler and are left out.
\<close>

type_synonym objectId = string
type_synonym date = int

record User =
  user_id :: objectId
  email :: string
  password :: "string option"
  googleId :: "string option"
  name :: string
  dateOfBirth :: "date option"
  isVerified :: bool
  otp :: "string option"
  otpExpiry :: "date option"

type_synonym users = "User list"

text \<open>The JSON bodies the handlers send, and the response with its status code.\<close>

datatype reply =
    Errors "string list"
  | Error string
  | Message string "objectId option"
  | Session string objectId string string

record response =
  status :: nat
  body :: reply

text \<open>Request bodies, one record per route; \<open>None\<close> is a field the body lacks.\<close>

record signupBody =
  validationErrors :: "string list"
  body_email :: string
  body_name :: string
  body_dateOfBirth :: "date option"
  body_password :: "string option"

record verifyBody =
  verify_userId :: objectId
  verify_otp :: "string option"

text \<open>
  What \<^verbatim>\<open>googleAuth\<close> reads of the verified token's payload: \<^verbatim>\<open>sub\<close>, \<^verbatim>\<open>email\<close>
  and \<^verbatim>\<open>name\<close>. A value the payload does not carry is the empty string, as for the
  user's fields above.
\<close>

record TokenPayload =
  payload_sub :: string
  payload_email :: string
  payload_name :: string

text \<open>
  \<^verbatim>\<open>googleClient.verifyIdToken\<close> rejects (\<open>Rejects\<close>) or resolves to a ticket whose
  \<^verbatim>\<open>getPayload()\<close> may be undefined.
\<close>

datatype ticket = Rejects | Ticket "TokenPayload option"

subsection \<open>JavaScript numbers\<close>

text \<open>
  The numbers of \<^verbatim>\<open>generateOTP\<close> are IEEE 754 doubles, none of them negative. Such a
  number is \<open>mant * 2 ^ expo\<close> for a natural \<open>mant\<close> and an integer \<open>expo\<close>;
  \<open>dval\<close> is the real number it stands for.
\<close>

datatype double = Double (mant: nat) (expo: int)

definition dval :: "double \<Rightarrow> real" where
  "dval d = (if 0 \<le> expo d then real (mant d * 2 ^ nat (expo d))
             else real (mant d) / 2 ^ nat (- expo d))"

text \<open>The number of binary digits of a significand.\<close>

fun bitlen :: "nat \<Rightarrow> nat" where
  "bitlen n = (if n = 0 then 0 else Suc (bitlen (n div 2)))"

declare bitlen.simps [simp del]

text \<open>
  \<open>m / 2 ^ s\<close> rounded to the nearest natural number, a tie going to the even one.
\<close>

definition roundTiesToEven :: "nat \<Rightarrow> nat \<Rightarrow> nat" where
  "roundTiesToEven m s =
     (let q = m div 2 ^ s; r = m mod 2 ^ s in
      if 2 * r < 2 ^ s then q
      else if 2 ^ s < 2 * r then q + 1
      else if even q then q else q + 1)"

text \<open>
  The double nearest to the exact value \<open>m * 2 ^ e\<close>: 53 significant binary digits, the
  exponent of the last of them not below \<open>-1074\<close> (the subnormal range), ties to even.
  This is how ECMAScript defines the result of \<^verbatim>\<open>*\<close> and \<^verbatim>\<open>+\<close> from the exact product
  and sum. Overflow to \<^verbatim>\<open>Infinity\<close> needs a value of \<open>2 ^ 1024\<close> or more and is left
  out: the values of \<^verbatim>\<open>generateOTP\<close> stay below \<open>2 ^ 20\<close>.
\<close>

definition round_double :: "nat \<Rightarrow> int \<Rightarrow> double" where
  "round_double m e =
     (let q = max (int (bitlen m) - 53 + e) (- 1074) in
      if q \<le> e then Double m e else Double (roundTiesToEven m (nat (q - e))) q)"

definition times_double :: "double \<Rightarrow> double \<Rightarrow> double" where
  "times_double a b = round_double (mant a * mant b) (expo a + expo b)"

definition plus_double :: "double \<Rightarrow> double \<Rightarrow> double" where
  "plus_double a b =
     (let e = min (expo a) (expo b) in
      round_double (mant a * 2 ^ nat (expo a - e) + mant b * 2 ^ nat (expo b - e)) e)"

text \<open>\<^verbatim>\<open>Math.floor\<close>.\<close>

definition floor_double :: "double \<Rightarrow> int" where
  "floor_double d = (if 0 \<le> expo d then int (mant d * 2 ^ nat (expo d))
                     else int (mant d div 2 ^ nat (- expo d)))"

text \<open>
  What \<^verbatim>\<open>Math.random()\<close> may return: a double that is not negative and is less than 1.
\<close>

definition is_unit_double :: "double \<Rightarrow> bool" where
  "is_unit_double d = (mant d < 2 ^ 53 \<and> - 1074 \<le> expo d \<and> dval d < 1)"

definition unit_doubles :: "double set" where
  "unit_doubles = {r. is_unit_double r}"
subsection \<open>The environment of a call\<close>

text \<open>
  What one call observes: the clock, \<^verbatim>\<open>Math.random()\<close>, the \<^verbatim>\<open>_id\<close> a new
  document is given, the library functions \<^verbatim>\<open>bcrypt.hash\<close>, \<^verbatim>\<open>bcrypt.compare\<close>
  and \<^verbatim>\<open>jwt.sign\<close> (not part of the repository, kept as parameters), whether
  \<^verbatim>\<open>transporter.sendMail\<close> resolves, and the outcome of the Google verification.
\<close>

record env =
  now :: date
  math_random :: double
  new_id :: objectId
  bcrypt_hash :: "string \<Rightarrow> nat \<Rightarrow> string"
  bcrypt_compare :: "string \<Rightarrow> string \<Rightarrow> bool"
  jwt_sign :: "objectId \<Rightarrow> string"
  sendMail :: "string \<Rightarrow> string \<Rightarrow> bool"
  verifyIdToken :: "string \<Rightarrow> ticket"

subsection \<open>The User schema\<close>

text \<open>
  \<^verbatim>\<open>lowercase: true, trim: true\<close> on \<^verbatim>\<open>email\<close>: setters that run when the field is
  assigned and when it appears in a query filter. Characters are bytes here: the
  letters A to Z are lowered, the ASCII white space is trimmed.
\<close>

definition toLowerCase :: "string \<Rightarrow> string" where
  "toLowerCase s =
     map (\<lambda>c. case map_of (zip ''ABCDEFGHIJKLMNOPQRSTUVWXYZ'' ''abcdefghijklmnopqrstuvwxyz'') c of
                 None \<Rightarrow> c | Some l \<Rightarrow> l) s"

definition isSpace :: "char \<Rightarrow> bool" where
  "isSpace c = (c \<in> set [CHR '' '', CHR 0x09, CHR 0x0A, CHR 0x0B, CHR 0x0C, CHR 0x0D])"

definition trim :: "string \<Rightarrow> string" where
  "trim s = rev (dropWhile isSpace (rev (dropWhile isSpace s)))"

definition set_email :: "string \<Rightarrow> string" where
  "set_email s = trim (toLowerCase s)"

text \<open>JavaScript truthiness of an optional string: present and not empty.\<close>

definition truthy :: "string option \<Rightarrow> bool" where
  "truthy v = (case v of None \<Rightarrow> False | Some s \<Rightarrow> s \<noteq> [])"

text \<open>
  The schema's validators, run by every \<^verbatim>\<open>save()\<close> before the pre-save hooks:
  \<^verbatim>\<open>email\<close> and \<^verbatim>\<open>name\<close> are required, \<^verbatim>\<open>password\<close> is required when
  \<^verbatim>\<open>!this.googleId\<close>. A required string must be present and not empty.
\<close>

definition validate :: "User \<Rightarrow> bool" where
  "validate u = (email u \<noteq> [] \<and> name u \<noteq> [] \<and> (\<not> truthy (googleId u) \<longrightarrow> truthy (password u)))"

text \<open>
  \<^verbatim>\<open>UserSchema.pre("save")\<close>: unless the password is unmodified or falsy, it is
  replaced by \<^verbatim>\<open>bcrypt.hash(this.password, 10)\<close>.
\<close>

definition pre_save :: "env \<Rightarrow> bool \<Rightarrow> User \<Rightarrow> User" where
  "pre_save e isModified_password u =
     (if \<not> isModified_password \<or> \<not> truthy (password u) then u
      else u\<lparr>password := map_option (\<lambda>p. bcrypt_hash e p 10) (password u)\<rparr>)"

text \<open>\<^verbatim>\<open>comparePassword\<close>.\<close>

definition comparePassword :: "env \<Rightarrow> User \<Rightarrow> string \<Rightarrow> bool" where
  "comparePassword e u pw =
     (if \<not> truthy (password u) then False
      else case password u of None \<Rightarrow> False | Some h \<Rightarrow> bcrypt_compare e pw h)"

subsection \<open>The collection\<close>

text \<open>
  \<^verbatim>\<open>User.findOne({ email })\<close> and \<^verbatim>\<open>User.findById(userId)\<close>: the first document
  that matches. The filter's email goes through the schema's setters.
\<close>

definition findOne_email :: "users \<Rightarrow> string \<Rightarrow> User option" where
  "findOne_email db e = find (\<lambda>u. email u = set_email e) db"

definition findById :: "users \<Rightarrow> objectId \<Rightarrow> User option" where
  "findById db i = find (\<lambda>u. user_id u = i) db"

text \<open>The update of the stored document with the \<^verbatim>\<open>_id\<close> of the one saved.\<close>

fun updateOne :: "User \<Rightarrow> users \<Rightarrow> users" where
  "updateOne u [] = []"
| "updateOne u (v # vs) = (if user_id v = user_id u then u # vs else v # updateOne u vs)"

datatype saveError = ValidationError | DuplicateKey

text \<open>
  \<^verbatim>\<open>doc.save()\<close>: validation, then the pre-save hook, then the write. A new document is
  inserted, and the insert is refused when its \<^verbatim>\<open>_id\<close> or its \<^verbatim>\<open>email\<close>
  (\<^verbatim>\<open>unique: true\<close>) is already there; a document that was loaded is written back.
\<close>

definition save :: "env \<Rightarrow> bool \<Rightarrow> bool \<Rightarrow> User \<Rightarrow> users \<Rightarrow> saveError + users" where
  "save e isNew isModified_password u db =
     (if \<not> validate u then Inl ValidationError
      else let u' = pre_save e isModified_password u in
        if isNew then
          (if list_ex (\<lambda>v. user_id v = user_id u' \<or> email v = email u') db then Inl DuplicateKey
           else Inr (db @ [u']))
        else Inr (updateOne u' db))"

subsection \<open>The controller's helpers\<close>

text \<open>\<^verbatim>\<open>Number.prototype.toString()\<close> of an integer: its decimal digits.\<close>

definition digit_char :: "nat \<Rightarrow> char" where
  "digit_char d = ''0123456789'' ! d"

fun digits :: "nat \<Rightarrow> string" where
  "digits n = (if n < 10 then [digit_char n] else digits (n div 10) @ [digit_char (n mod 10)])"

declare digits.simps [simp del]

definition toString :: "int \<Rightarrow> string" where
  "toString i = (if i < 0 then CHR ''-'' # digits (nat (- i)) else digits (nat i))"

text \<open>
  \<^verbatim>\<open>Math.floor(100000 + Math.random() * 900000).toString()\<close>, as a function of the
  double \<^verbatim>\<open>Math.random()\<close> returned: the product is rounded, the sum is rounded, and
  the floor of that double is written in decimal.
\<close>

definition generateOTP :: "double \<Rightarrow> string" where
  "generateOTP r =
     toString (floor_double (plus_double (Double 100000 0) (times_double r (Double 900000 0))))"

text \<open>\<^verbatim>\<open>jwt.sign({ userId }, JWT_SECRET, { expiresIn: JWT_EXPIRE })\<close>.\<close>

definition generateToken :: "env \<Rightarrow> objectId \<Rightarrow> string" where
  "generateToken e userId = jwt_sign e userId"

subsection \<open>The handlers\<close>

definition signup :: "env \<Rightarrow> signupBody \<Rightarrow> users \<Rightarrow> response \<times> users" where
  "signup e req db =
     (if validationErrors req \<noteq> [] then
        (\<lparr>status = 400, body = Errors (validationErrors req)\<rparr>, db)
      else case findOne_email db (body_email req) of
        Some existingUser \<Rightarrow> (\<lparr>status = 400, body = Error ''User already exists''\<rparr>, db)
      | None \<Rightarrow>
          let code = generateOTP (math_random e);
              expiry = now e + 10 * 60 * 1000;
              user = \<lparr>user_id = new_id e, email = set_email (body_email req),
                      password = body_password req, googleId = None, name = body_name req,
                      dateOfBirth = body_dateOfBirth req, isVerified = False,
                      otp = Some code, otpExpiry = Some expiry\<rparr>
          in (case save e True (body_password req \<noteq> None) user db of
                Inl err \<Rightarrow> (\<lparr>status = 500, body = Error ''Failed to create account''\<rparr>, db)
              | Inr db' \<Rightarrow>
                  if sendMail e (body_email req) code then
                    (\<lparr>status = 201, body = Message ''OTP sent to your email'' (Some (user_id user))\<rparr>, db')
                  else (\<lparr>status = 500, body = Error ''Failed to create account''\<rparr>, db')))"

definition verifyOTP :: "env \<Rightarrow> verifyBody \<Rightarrow> users \<Rightarrow> response \<times> users" where
  "verifyOTP e req db =
     (case findById db (verify_userId req) of
        None \<Rightarrow> (\<lparr>status = 404, body = Error ''User not found''\<rparr>, db)
      | Some user \<Rightarrow>
          if otp user \<noteq> verify_otp req \<or> otpExpiry user = None
             \<or> (case otpExpiry user of None \<Rightarrow> False | Some t \<Rightarrow> t < now e)
          then (\<lparr>status = 400, body = Error ''Invalid or expired OTP''\<rparr>, db)
          else
            let user' = user\<lparr>isVerified := True, otp := None, otpExpiry := None\<rparr> in
            (case save e False False user' db of
               Inl err \<Rightarrow> (\<lparr>status = 500, body = Error ''Failed to verify OTP''\<rparr>, db)
             | Inr db' \<Rightarrow>
                 (\<lparr>status = 200,
                   body = Session (generateToken e (user_id user')) (user_id user') (email user')
                            (name user')\<rparr>, db')))"

definition signin :: "env \<Rightarrow> string \<Rightarrow> users \<Rightarrow> response \<times> users" where
  "signin e req_email db =
     (case findOne_email db req_email of
        None \<Rightarrow> (\<lparr>status = 404, body = Error ''User not found''\<rparr>, db)
      | Some user \<Rightarrow>
          let code = generateOTP (math_random e);
              expiry = now e + 10 * 60 * 1000;
              user' = user\<lparr>otp := Some code, otpExpiry := Some expiry\<rparr>
          in (case save e False False user' db of
                Inl err \<Rightarrow> (\<lparr>status = 500, body = Error ''Failed to send OTP''\<rparr>, db)
              | Inr db' \<Rightarrow>
                  if sendMail e req_email code then
                    (\<lparr>status = 200, body = Message ''OTP sent to your email'' (Some (user_id user'))\<rparr>, db')
                  else (\<lparr>status = 500, body = Error ''Failed to send OTP''\<rparr>, db')))"

definition googleAuth :: "env \<Rightarrow> string \<Rightarrow> users \<Rightarrow> response \<times> users" where
  "googleAuth e token db =
     (case verifyIdToken e token of
        Rejects \<Rightarrow> (\<lparr>status = 500, body = Error ''Google authentication failed''\<rparr>, db)
      | Ticket None \<Rightarrow> (\<lparr>status = 400, body = Error ''Invalid token''\<rparr>, db)
      | Ticket (Some payload) \<Rightarrow>
          (case findOne_email db (payload_email payload) of
             Some user \<Rightarrow>
               (\<lparr>status = 200,
                 body = Session (generateToken e (user_id user)) (user_id user) (email user)
                          (name user)\<rparr>, db)
           | None \<Rightarrow>
               let user = \<lparr>user_id = new_id e, email = set_email (payload_email payload),
                           password = None, googleId = Some (payload_sub payload),
                           name = payload_name payload, dateOfBirth = None, isVerified = True,
                           otp = None, otpExpiry = None\<rparr>
               in (case save e True False user db of
                     Inl err \<Rightarrow> (\<lparr>status = 500, body = Error ''Google authentication failed''\<rparr>, db)
                   | Inr db' \<Rightarrow>
                       (\<lparr>status = 200,
                         body = Session (generateToken e (user_id user)) (user_id user) (email user)
                                  (name user)\<rparr>, db'))))"

definition resendOTP :: "env \<Rightarrow> objectId \<Rightarrow> users \<Rightarrow> response \<times> users" where
  "resendOTP e userId db =
     (case findById db userId of
        None \<Rightarrow> (\<lparr>status = 404, body = Error ''User not found''\<rparr>, db)
      | Some user \<Rightarrow>
          let code = generateOTP (math_random e);
              expiry = now e + 10 * 60 * 1000;
              user' = user\<lparr>otp := Some code, otpExpiry := Some expiry\<rparr>
          in (case save e False False user' db of
                Inl err \<Rightarrow> (\<lparr>status = 500, body = Error ''Failed to resend OTP''\<rparr>, db)
              | Inr db' \<Rightarrow>
                  if sendMail e (email user') code then
                    (\<lparr>status = 200, body = Message ''OTP resent successfully'' None\<rparr>, db')
                  else (\<lparr>status = 500, body = Error ''Failed to resend OTP''\<rparr>, db')))"

subsection \<open>Sample values\<close>

text \<open>
  An environment, a stored user and request data for the worked instances below. The
  sample draw of \<^verbatim>\<open>Math.random()\<close> is one half; the payload of the third token
  carries no name.
\<close>

definition bob_payload :: TokenPayload where
  "bob_payload = \<lparr>payload_sub = ''g-1'', payload_email = ''Bob@X.com '', payload_name = ''Bob''\<rparr>"

definition ann_payload :: TokenPayload where
  "ann_payload = \<lparr>payload_sub = ''g-2'', payload_email = ''Ann@X.com'', payload_name = ''Ann''\<rparr>"

definition carol_payload :: TokenPayload where
  "carol_payload = \<lparr>payload_sub = ''g-3'', payload_email = ''carol@x.com'', payload_name = []\<rparr>"

definition sample_env :: env where
  "sample_env =
     \<lparr>now = 1000, math_random = Double 1 (- 1), new_id = ''id2'',
      bcrypt_hash = (\<lambda>p n. ''$2a$10$'' @ p), bcrypt_compare = (\<lambda>p h. h = ''$2a$10$'' @ p),
      jwt_sign = (\<lambda>i. ''jwt:'' @ i), sendMail = (\<lambda>a c. True),
      verifyIdToken = (\<lambda>t. if t = ''token-bob'' then Ticket (Some bob_payload)
                           else if t = ''token-ann'' then Ticket (Some ann_payload)
                           else if t = ''token-carol'' then Ticket (Some carol_payload)
                           else Rejects)\<rparr>"

definition sample_user :: User where
  "sample_user =
     \<lparr>user_id = ''id1'', email = ''ann@x.com'', password = Some ''$2a$10$secret1'',
      googleId = None, name = ''Ann'', dateOfBirth = None, isVerified = False,
      otp = Some ''123456'', otpExpiry = Some 1000\<rparr>"

definition sample_signup :: signupBody where
  "sample_signup = \<lparr>validationErrors = [], body_email = ''Bob@X.com '', body_name = ''Bob'',
                    body_dateOfBirth = None, body_password = Some ''hunter22''\<rparr>"

section \<open>Auxiliary facts\<close>

subsection \<open>Decimal digits\<close>

lemma digit_char_mem: "d < 10 \<Longrightarrow> digit_char d \<in> set ''0123456789''"
  unfolding digit_char_def by (rule nth_mem) simp

lemma digit_char_nonzero: "0 < d \<Longrightarrow> d < 10 \<Longrightarrow> digit_char d \<noteq> CHR ''0''"
proof -
  assume "0 < d" "d < 10"
  then have "d \<in> {1, 2, 3, 4, 5, 6, 7, 8, 9}" by auto
  then show ?thesis by (auto simp: digit_char_def)
qed

lemma digits_not_Nil: "digits n \<noteq> []"
  by (subst digits.simps) simp

lemma digits_set: "set (digits n) \<subseteq> set ''0123456789''"
proof (induction n rule: digits.induct)
  case (1 n)
  show ?case
  proof (cases "n < 10")
    case True
    then show ?thesis using digit_char_mem[of n] by (subst digits.simps) simp
  next
    case False
    have "digit_char (n mod 10) \<in> set ''0123456789''" by (rule digit_char_mem) simp
    with False 1 show ?thesis by (subst digits.simps) simp
  qed
qed

lemma digits_hd: "0 < n \<Longrightarrow> hd (digits n) \<noteq> CHR ''0''"
proof (induction n rule: digits.induct)
  case (1 n)
  show ?case
  proof (cases "n < 10")
    case True
    with "1.prems" show ?thesis using digit_char_nonzero[of n] by (subst digits.simps) simp
  next
    case False
    then have "0 < n div 10" by simp
    with False 1 show ?thesis by (subst digits.simps) (simp add: digits_not_Nil)
  qed
qed

lemma digits_length: "10 ^ k \<le> n \<Longrightarrow> n < 10 ^ Suc k \<Longrightarrow> length (digits n) = Suc k"
proof (induction k arbitrary: n)
  case 0
  then show ?case by (simp add: digits.simps)
next
  case (Suc k)
  have "(10::nat) \<le> 10 ^ Suc k" by simp
  with Suc.prems(1) have big: "\<not> n < 10" by linarith
  have lo: "10 ^ k \<le> n div 10" using Suc.prems(1) by (simp add: less_eq_div_iff_mult_less_eq)
  have hi: "n div 10 < 10 ^ Suc k" using Suc.prems(2) by (simp add: div_less_iff_less_mult)
  show ?case using big Suc.IH[OF lo hi] by (subst digits.simps) simp
qed

subsection \<open>Rounding to a double\<close>

lemma bitlen_upper: "n < 2 ^ bitlen n"
proof (induction n rule: bitlen.induct)
  case (1 n)
  show ?case
  proof (cases "n = 0")
    case True
    then show ?thesis by (subst bitlen.simps) simp
  next
    case False
    then have "n div 2 < 2 ^ bitlen (n div 2)" using 1 by simp
    then have "n < 2 * 2 ^ bitlen (n div 2)" by linarith
    then show ?thesis using False by (subst bitlen.simps) simp
  qed
qed

lemma bitlen_lower: "0 < n \<Longrightarrow> 2 ^ bitlen n \<le> 2 * n"
proof (induction n rule: bitlen.induct)
  case (1 n)
  show ?case
  proof (cases "n div 2 = 0")
    case True
    then have "n = 1" using "1.prems" by linarith
    then show ?thesis by (simp add: bitlen.simps)
  next
    case False
    then have "2 ^ bitlen (n div 2) \<le> 2 * (n div 2)" using 1 by simp
    then have "2 * 2 ^ bitlen (n div 2) \<le> 2 * n" by linarith
    then show ?thesis using "1.prems" by (subst bitlen.simps) simp
  qed
qed

lemma roundTiesToEven_error:
  "\<bar>real (roundTiesToEven m s) - real m / 2 ^ s\<bar> \<le> 1 / 2"
proof -
  define q where "q = m div 2 ^ s"
  define r where "r = m mod 2 ^ s"
  have m: "m = q * 2 ^ s + r" unfolding q_def r_def by (rule div_mult_mod_eq[symmetric])
  have r: "r < 2 ^ s" by (simp add: r_def)
  have frac: "real m / 2 ^ s = real q + real r / 2 ^ s"
    by (simp add: m add_divide_distrib)
  have lo: "0 \<le> real r / 2 ^ s" by simp
  have hi: "real r / 2 ^ s < 1" using r by simp
  have cases: "roundTiesToEven m s = q \<or> roundTiesToEven m s = q + 1"
    by (simp add: roundTiesToEven_def Let_def q_def)
  have down: "real r / 2 ^ s \<le> 1 / 2" if "roundTiesToEven m s = q \<and> \<not> (roundTiesToEven m s = q + 1)"
  proof -
    from that have "\<not> 2 ^ s < 2 * r"
      by (auto simp: roundTiesToEven_def Let_def q_def r_def split: if_splits)
    then have "2 * real r \<le> 2 ^ s" by (metis not_less of_nat_le_iff of_nat_mult of_nat_numeral of_nat_power)
    then show ?thesis by (simp add: field_simps)
  qed
  have up: "1 / 2 \<le> real r / 2 ^ s" if "roundTiesToEven m s = q + 1"
  proof -
    from that have "\<not> 2 * r < 2 ^ s"
      by (auto simp: roundTiesToEven_def Let_def q_def r_def split: if_splits)
    then have "2 ^ s \<le> 2 * real r" by (metis not_less of_nat_le_iff of_nat_mult of_nat_numeral of_nat_power)
    then show ?thesis by (simp add: field_simps)
  qed
  show ?thesis
  proof (cases "roundTiesToEven m s = q + 1")
    case True
    then show ?thesis using up hi frac by simp
  next
    case False
    then have "roundTiesToEven m s = q" using cases by blast
    then show ?thesis using down False lo frac by simp
  qed
qed

lemma powr_int_nonneg: "0 \<le> k \<Longrightarrow> (2::real) powr real_of_int k = 2 ^ nat k"
proof -
  assume "0 \<le> k"
  then have "real_of_int k = real (nat k)" by simp
  then show ?thesis by (simp only: powr_realpow zero_less_numeral)
qed

lemma dval_powr: "dval (Double m e) = real m * 2 powr real_of_int e"
proof (cases "0 \<le> e")
  case True
  then show ?thesis by (simp add: dval_def powr_int_nonneg)
next
  case False
  then have "0 \<le> - e" by simp
  then have "(2::real) powr real_of_int (- e) = 2 ^ nat (- e)" by (rule powr_int_nonneg)
  moreover have "(2::real) powr real_of_int e = 1 / 2 powr real_of_int (- e)"
    by (simp add: powr_minus_divide)
  ultimately have "(2::real) powr real_of_int e = 1 / 2 ^ nat (- e)" by simp
  then show ?thesis using False by (simp add: dval_def)
qed

lemma dval_powr': "dval d = real (mant d) * 2 powr real_of_int (expo d)"
  by (cases d) (simp add: dval_powr)

lemma powr_int_shift:
  "a \<le> b \<Longrightarrow> (2::real) powr real_of_int b = 2 ^ nat (b - a) * 2 powr real_of_int a"
proof -
  assume "a \<le> b"
  then have "0 \<le> b - a" by simp
  then have "(2::real) powr real_of_int (b - a) = 2 ^ nat (b - a)" by (rule powr_int_nonneg)
  moreover have "(2::real) powr real_of_int b = 2 powr real_of_int (b - a) * 2 powr real_of_int a"
    by (simp add: powr_add[symmetric])
  ultimately show ?thesis by (simp only:)
qed

lemma roundTiesToEven_zero: "roundTiesToEven 0 s = 0"
  by (simp add: roundTiesToEven_def)

lemma round_double_zero: "dval (round_double 0 e) = 0"
  by (simp add: round_double_def Let_def dval_powr roundTiesToEven_zero)

lemma round_double_grid:
  assumes small: "real m * 2 powr real_of_int e < 2 ^ 20"
  shows "\<exists>q Z. q \<le> - 33
           \<and> dval (round_double m e) = real Z * 2 powr real_of_int q
           \<and> \<bar>real Z - real m * 2 powr real_of_int e / 2 powr real_of_int q\<bar> \<le> 1 / 2
           \<and> (2 ^ 19 \<le> real m * 2 powr real_of_int e \<longrightarrow> q = - 33)"
proof (cases "m = 0")
  case True
  have "dval (round_double m e) = real 0 * 2 powr real_of_int (- 33)"
    using True by (simp add: round_double_zero)
  moreover have "\<bar>real 0 - real m * 2 powr real_of_int e / 2 powr real_of_int (- 33)\<bar> \<le> 1 / 2"
    using True by simp
  moreover have "\<not> 2 ^ 19 \<le> real m * 2 powr real_of_int e" using True by simp
  ultimately show ?thesis by (intro exI[of _ "- 33"] exI[of _ "0::nat"]) simp
next
  case False
  define L where "L = bitlen m"
  define q where "q = max (int L - 53 + e) (- 1074)"
  define X where "X = real m * 2 powr real_of_int e"
  have up: "real m < 2 ^ L" unfolding L_def
    by (metis bitlen_upper of_nat_less_iff of_nat_numeral of_nat_power)
  have "2 ^ L \<le> 2 * m" unfolding L_def using False by (simp add: bitlen_lower)
  then have lo: "2 ^ L \<le> 2 * real m"
    by (metis of_nat_le_iff of_nat_mult of_nat_numeral of_nat_power)
  have P: "0 < (2::real) powr real_of_int e" by simp
  have LP: "(2::real) powr real_of_int (int L + e) = 2 ^ L * 2 powr real_of_int e"
    by (simp add: powr_add powr_realpow)
  have "2 powr real_of_int (int L + e) \<le> 2 * X"
    unfolding LP X_def using lo P by (simp add: mult_right_mono)
  also have "\<dots> < 2 * 2 ^ 20" using small by (simp add: X_def)
  also have "\<dots> = 2 powr real_of_int 21" by simp
  finally have "int L + e < 21" by (simp only: powr_less_cancel_iff one_less_numeral_iff semiring_norm of_int_less_iff)
  then have q33: "q \<le> - 33" by (simp add: q_def)
  have top: "q = - 33" if "2 ^ 19 \<le> X"
  proof -
    have "X < 2 powr real_of_int (int L + e)"
      unfolding LP X_def using up P by (simp add: mult_strict_right_mono)
    with that have "(2::real) powr real_of_int 19 < 2 powr real_of_int (int L + e)" by simp
    then have "19 < int L + e" by (simp only: powr_less_cancel_iff one_less_numeral_iff semiring_norm of_int_less_iff)
    with \<open>int L + e < 21\<close> show ?thesis by (simp add: q_def)
  qed
  have rd: "round_double m e =
              (if q \<le> e then Double m e else Double (roundTiesToEven m (nat (q - e))) q)"
    unfolding round_double_def Let_def q_def L_def by (rule refl)
  show ?thesis
  proof (cases "q \<le> e")
    case True
    define Z where "Z = m * 2 ^ nat (e - q)"
    have r: "round_double m e = Double m e"
      using True by (simp only: rd if_True)
    have sh: "(2::real) powr real_of_int e = 2 ^ nat (e - q) * 2 powr real_of_int q"
      using True by (rule powr_int_shift)
    have v: "dval (round_double m e) = real Z * 2 powr real_of_int q"
      by (simp add: r dval_powr Z_def sh)
    have "real m * 2 powr real_of_int e / 2 powr real_of_int q = real Z"
      by (simp add: Z_def sh)
    then have d: "\<bar>real Z - real m * 2 powr real_of_int e / 2 powr real_of_int q\<bar> \<le> 1 / 2" by simp
    show ?thesis using q33 v d top unfolding X_def by blast
  next
    case False
    define s where "s = nat (q - e)"
    define Z where "Z = roundTiesToEven m s"
    have r: "round_double m e = Double Z q"
      using False by (simp only: rd if_False Z_def s_def)
    have sh: "(2::real) powr real_of_int q = 2 ^ s * 2 powr real_of_int e"
      unfolding s_def using False by (intro powr_int_shift) simp
    have v: "dval (round_double m e) = real Z * 2 powr real_of_int q"
      by (simp add: r dval_powr)
    have "real m * 2 powr real_of_int e / 2 powr real_of_int q = real m / 2 ^ s"
      by (simp add: sh)
    then have d: "\<bar>real Z - real m * 2 powr real_of_int e / 2 powr real_of_int q\<bar> \<le> 1 / 2"
      unfolding Z_def using roundTiesToEven_error[of m s] by simp
    show ?thesis using q33 v d top unfolding X_def by blast
  qed
qed

lemma powr_m33: "(2::real) powr real_of_int (- 33) = 1 / 2 ^ 33"
proof -
  have "(2::real) powr real_of_int 33 = 2 ^ nat 33" by (rule powr_int_nonneg) simp
  moreover have "(2::real) powr real_of_int (- 33) = 1 / 2 powr real_of_int 33"
    by (simp add: powr_minus_divide)
  ultimately show ?thesis by simp
qed

lemma grid_unit:
  assumes "q \<le> - 33"
  shows "real_of_int k / 2 ^ 33 = real_of_int (k * 2 ^ nat (- 33 - q)) * 2 powr real_of_int q"
proof -
  have "(2::real) powr real_of_int (- 33) = 2 ^ nat (- 33 - q) * 2 powr real_of_int q"
    using assms by (rule powr_int_shift)
  then have "1 / 2 ^ 33 = (2::real) ^ nat (- 33 - q) * 2 powr real_of_int q"
    by (simp only: powr_m33)
  then have "real_of_int k / 2 ^ 33 = real_of_int k * (2 ^ nat (- 33 - q) * 2 powr real_of_int q)"
    by simp
  then show ?thesis by simp
qed

lemma grid_le:
  assumes q: "q \<le> - 33" and near: "\<bar>real Z - X / 2 powr real_of_int q\<bar> \<le> 1 / 2"
    and le: "X \<le> real_of_int k / 2 ^ 33"
  shows "real Z * 2 powr real_of_int q \<le> real_of_int k / 2 ^ 33"
proof -
  define G where "G = k * 2 ^ nat (- 33 - q)"
  have P: "0 < (2::real) powr real_of_int q" by simp
  have g: "real_of_int k / 2 ^ 33 = real_of_int G * 2 powr real_of_int q"
    unfolding G_def using q by (rule grid_unit)
  have "X / 2 powr real_of_int q \<le> real_of_int G"
    using le P unfolding g by (simp add: field_simps)
  then have "real Z \<le> real_of_int G + 1 / 2" using near by linarith
  then have "real_of_int (int Z) < real_of_int (G + 1)" by simp
  then have "int Z < G + 1" by (simp only: of_int_less_iff)
  then have "real Z \<le> real_of_int G" by linarith
  then show ?thesis unfolding g using P by (simp add: mult_right_mono)
qed

lemma grid_ge:
  assumes q: "q \<le> - 33" and near: "\<bar>real Z - X / 2 powr real_of_int q\<bar> \<le> 1 / 2"
    and ge: "real_of_int k / 2 ^ 33 \<le> X"
  shows "real_of_int k / 2 ^ 33 \<le> real Z * 2 powr real_of_int q"
proof -
  define G where "G = k * 2 ^ nat (- 33 - q)"
  have P: "0 < (2::real) powr real_of_int q" by simp
  have g: "real_of_int k / 2 ^ 33 = real_of_int G * 2 powr real_of_int q"
    unfolding G_def using q by (rule grid_unit)
  have "real_of_int G \<le> X / 2 powr real_of_int q"
    using ge P unfolding g by (simp add: field_simps)
  then have "real_of_int G - 1 / 2 \<le> real Z" using near by linarith
  then have "real_of_int (G - 1) < real_of_int (int Z)" by simp
  then have "G - 1 < int Z" by (simp only: of_int_less_iff)
  then have "real_of_int G \<le> real Z" by linarith
  then show ?thesis unfolding g using P by (simp add: mult_right_mono)
qed

lemma round_double_le:
  assumes "real m * 2 powr real_of_int e < 2 ^ 20"
    and "real m * 2 powr real_of_int e \<le> real_of_int k / 2 ^ 33"
  shows "dval (round_double m e) \<le> real_of_int k / 2 ^ 33"
proof -
  obtain q Z where "q \<le> - 33" and v: "dval (round_double m e) = real Z * 2 powr real_of_int q"
    and "\<bar>real Z - real m * 2 powr real_of_int e / 2 powr real_of_int q\<bar> \<le> 1 / 2"
    using round_double_grid[OF assms(1)] by blast
  then show ?thesis unfolding v using assms(2) by (intro grid_le)
qed

lemma round_double_ge:
  assumes "real m * 2 powr real_of_int e < 2 ^ 20"
    and "real_of_int k / 2 ^ 33 \<le> real m * 2 powr real_of_int e"
  shows "real_of_int k / 2 ^ 33 \<le> dval (round_double m e)"
proof -
  obtain q Z where "q \<le> - 33" and v: "dval (round_double m e) = real Z * 2 powr real_of_int q"
    and "\<bar>real Z - real m * 2 powr real_of_int e / 2 powr real_of_int q\<bar> \<le> 1 / 2"
    using round_double_grid[OF assms(1)] by blast
  then show ?thesis unfolding v using assms(2) by (intro grid_ge)
qed

lemma round_double_error:
  assumes "real m * 2 powr real_of_int e < 2 ^ 20"
  shows "\<bar>dval (round_double m e) - real m * 2 powr real_of_int e\<bar> \<le> 1 / 2 ^ 34"
proof -
  define X where "X = real m * 2 powr real_of_int e"
  obtain q Z where q: "q \<le> - 33" and v: "dval (round_double m e) = real Z * 2 powr real_of_int q"
    and near: "\<bar>real Z - X / 2 powr real_of_int q\<bar> \<le> 1 / 2"
    using round_double_grid[OF assms] unfolding X_def by blast
  define P where "P = (2::real) powr real_of_int q"
  have P: "0 < P" by (simp add: P_def)
  have "P \<le> 2 powr real_of_int (- 33)" unfolding P_def using q
    by (simp only: powr_le_cancel_iff one_less_numeral_iff semiring_norm of_int_le_iff)
  then have P33: "P \<le> 1 / 2 ^ 33" by (simp only: powr_m33)
  have "real Z * P - X = P * (real Z - X / P)" using P by (simp add: field_simps)
  then have "\<bar>real Z * P - X\<bar> = P * \<bar>real Z - X / P\<bar>" using P by (simp add: abs_mult)
  also have "\<dots> \<le> P * (1 / 2)" using near P unfolding P_def by (intro mult_left_mono) simp_all
  also have "\<dots> \<le> 1 / 2 ^ 33 * (1 / 2)" using P33 by simp
  finally show ?thesis unfolding v X_def P_def by simp
qed

lemma round_double_top:
  assumes "real m * 2 powr real_of_int e < 2 ^ 20" and "2 ^ 19 \<le> real m * 2 powr real_of_int e"
    and "real m * 2 powr real_of_int e * 2 ^ 33 + 1 / 2 < real_of_int k"
  shows "dval (round_double m e) \<le> real_of_int (k - 1) / 2 ^ 33"
proof -
  define X where "X = real m * 2 powr real_of_int e"
  obtain q Z where v: "dval (round_double m e) = real Z * 2 powr real_of_int q"
    and near: "\<bar>real Z - X / 2 powr real_of_int q\<bar> \<le> 1 / 2"
    and "2 ^ 19 \<le> X \<longrightarrow> q = - 33"
    using round_double_grid[OF assms(1)] unfolding X_def by blast
  then have q: "q = - 33" using assms(2) by (simp add: X_def)
  have "X / 2 powr real_of_int q = X * 2 ^ 33" unfolding q by (simp only: powr_m33) simp
  then have "real Z \<le> X * 2 ^ 33 + 1 / 2" using near by linarith
  then have "real_of_int (int Z) < real_of_int k" using assms(3) unfolding X_def by simp
  then have "int Z < k" by (simp only: of_int_less_iff)
  then have "real Z \<le> real_of_int (k - 1)" by simp
  then show ?thesis unfolding v q by (simp only: powr_m33) (simp add: divide_right_mono)
qed

lemma times_exact:
  "real (mant a * mant b) * 2 powr real_of_int (expo a + expo b) = dval a * dval b"
  by (simp add: dval_powr' powr_add)

lemma plus_exact:
  "real (mant a * 2 ^ nat (expo a - min (expo a) (expo b))
         + mant b * 2 ^ nat (expo b - min (expo a) (expo b)))
     * 2 powr real_of_int (min (expo a) (expo b))
   = dval a + dval b"
proof -
  define e where "e = min (expo a) (expo b)"
  have a: "(2::real) powr real_of_int (expo a) = 2 ^ nat (expo a - e) * 2 powr real_of_int e"
    by (rule powr_int_shift) (simp add: e_def)
  have b: "(2::real) powr real_of_int (expo b) = 2 ^ nat (expo b - e) * 2 powr real_of_int e"
    by (rule powr_int_shift) (simp add: e_def)
  show ?thesis unfolding e_def[symmetric] dval_powr'[of a] dval_powr'[of b] a b
    by (simp add: algebra_simps)
qed

lemma floor_double_eq: "floor_double d = \<lfloor>dval d\<rfloor>"
proof (cases "0 \<le> expo d")
  case True
  have "\<lfloor>real (mant d * 2 ^ nat (expo d))\<rfloor> = int (mant d * 2 ^ nat (expo d))"
    by (rule floor_of_nat)
  then show ?thesis using True by (simp only: floor_double_def dval_def if_True)
next
  case False
  have "\<lfloor>real (mant d) / real (2 ^ nat (- expo d))\<rfloor> = int (mant d div 2 ^ nat (- expo d))"
    by (rule floor_divide_of_nat_eq)
  then show ?thesis using False by (simp add: floor_double_def dval_def)
qed

lemma dval_nonneg: "0 \<le> dval d"
  by (simp add: dval_def)

lemma unit_double_upper:
  assumes "is_unit_double r"
  shows "dval r \<le> 1 - 1 / 2 ^ 53"
proof -
  from assms have m: "mant r < 2 ^ 53" and lt: "dval r < 1" by (simp_all add: is_unit_double_def)
  consider "0 \<le> expo r" | "expo r < 0" "- 53 \<le> expo r" | "expo r < - 53" by linarith
  then show ?thesis
  proof cases
    case 1
    then have "real (mant r * 2 ^ nat (expo r)) < 1" using lt by (simp add: dval_def)
    then have "mant r * 2 ^ nat (expo r) = 0" by linarith
    then have "dval r = 0" using 1 by (simp add: dval_def)
    then show ?thesis by simp
  next
    case 2
    define n where "n = nat (- expo r)"
    have n: "n \<le> 53" using 2 by (simp add: n_def)
    have d: "dval r = real (mant r) / 2 ^ n" using 2 by (simp add: dval_def n_def)
    then have "real (mant r) < real (2 ^ n)" using lt by simp
    then have "mant r < 2 ^ n" by (simp only: of_nat_less_iff)
    then have "mant r + 1 \<le> 2 ^ n" by simp
    then have "real (mant r + 1) \<le> real (2 ^ n)" by (simp only: of_nat_le_iff)
    then have "real (mant r) \<le> 2 ^ n - 1" by simp
    then have "real (mant r) / 2 ^ n \<le> (2 ^ n - 1) / 2 ^ n" by (rule divide_right_mono) simp
    also have "\<dots> = 1 - 1 / 2 ^ n" by (simp add: diff_divide_distrib)
    finally have a: "dval r \<le> 1 - 1 / 2 ^ n" unfolding d .
    have "(2::real) ^ n \<le> 2 ^ 53" by (rule power_increasing[OF n]) simp
    then have "1 / (2::real) ^ 53 \<le> 1 / 2 ^ n" by (intro divide_left_mono) simp_all
    then show ?thesis using a by linarith
  next
    case 3
    define n where "n = nat (- expo r)"
    have n: "54 \<le> n" using 3 by (simp add: n_def)
    have d: "dval r = real (mant r) / 2 ^ n" using 3 by (simp add: dval_def n_def)
    have "real (mant r) < real (2 ^ 53)" using m by (simp only: of_nat_less_iff)
    then have "real (mant r) \<le> 2 ^ 53" by simp
    moreover have "(2::real) ^ 54 \<le> 2 ^ n" by (rule power_increasing[OF n]) simp
    ultimately have "real (mant r) / 2 ^ n \<le> 2 ^ 53 / 2 ^ 54"
      by (intro frac_le) simp_all
    moreover have "(2::real) ^ 53 / 2 ^ 54 \<le> 1 - 1 / 2 ^ 53" by simp
    ultimately show ?thesis unfolding d by (rule order_trans)
  qed
qed

lemma product_bounds:
  assumes "is_unit_double r"
  shows "\<bar>dval (times_double r (Double 900000 0)) - dval r * 900000\<bar> \<le> 1 / 2 ^ 34"
    and "0 \<le> dval (times_double r (Double 900000 0))"
    and "dval (times_double r (Double 900000 0)) \<le> 900000 - 1 / 2 ^ 33"
proof -
  define X where "X = dval r * 900000"
  have ex: "real (mant r * mant (Double 900000 0)) * 2 powr real_of_int (expo r + expo (Double 900000 0)) = X"
    unfolding X_def times_exact by (simp add: dval_def)
  have t: "times_double r (Double 900000 0)
             = round_double (mant r * mant (Double 900000 0)) (expo r + expo (Double 900000 0))"
    by (simp only: times_double_def)
  have up: "dval r \<le> 1 - 1 / 2 ^ 53" using assms by (rule unit_double_upper)
  have X0: "0 \<le> X" unfolding X_def using dval_nonneg[of r] by simp
  have Xup: "X \<le> 900000 - 900000 / 2 ^ 53" unfolding X_def using up by simp
  then have small: "X < 2 ^ 20" by simp
  note small' = small[folded ex]
  show "\<bar>dval (times_double r (Double 900000 0)) - dval r * 900000\<bar> \<le> 1 / 2 ^ 34"
    using round_double_error[OF small'] unfolding t ex X_def .
  have "real_of_int 0 / 2 ^ 33 \<le> dval (times_double r (Double 900000 0))"
    unfolding t by (rule round_double_ge[OF small']) (simp add: ex X0)
  then show "0 \<le> dval (times_double r (Double 900000 0))" by simp
  show "dval (times_double r (Double 900000 0)) \<le> 900000 - 1 / 2 ^ 33"
  proof (cases "2 ^ 19 \<le> X")
    case True
    have "X * 2 ^ 33 + 1 / 2 < real_of_int (900000 * 2 ^ 33)" using Xup by simp
    then have "dval (times_double r (Double 900000 0)) \<le> real_of_int (900000 * 2 ^ 33 - 1) / 2 ^ 33"
      unfolding t using True by (intro round_double_top[OF small']) (simp_all only: ex)
    then show ?thesis by simp
  next
    case False
    then have "X \<le> real_of_int (2 ^ 52) / 2 ^ 33" by simp
    then have "dval (times_double r (Double 900000 0)) \<le> real_of_int (2 ^ 52) / 2 ^ 33"
      unfolding t by (intro round_double_le[OF small']) (simp only: ex)
    then show ?thesis by simp
  qed
qed

lemma sum_bounds:
  assumes "0 \<le> dval p" and "dval p \<le> 900000 - 1 / 2 ^ 33"
  shows "\<bar>dval (plus_double (Double 100000 0) p) - (100000 + dval p)\<bar> \<le> 1 / 2 ^ 34"
    and "100000 \<le> dval (plus_double (Double 100000 0) p)"
    and "dval (plus_double (Double 100000 0) p) \<le> 1000000 - 1 / 2 ^ 33"
proof -
  define a where "a = Double 100000 0"
  define e where "e = min (expo a) (expo p)"
  define M where "M = mant a * 2 ^ nat (expo a - e) + mant p * 2 ^ nat (expo p - e)"
  define S where "S = 100000 + dval p"
  have da: "dval a = 100000" by (simp add: a_def dval_def)
  have ex: "real M * 2 powr real_of_int e = S"
    unfolding M_def e_def S_def using plus_exact[of a p] by (simp add: da)
  have t: "plus_double (Double 100000 0) p = round_double M e"
    unfolding a_def[symmetric] by (simp only: plus_double_def Let_def M_def e_def)
  have S0: "100000 \<le> S" and S1: "S \<le> 1000000 - 1 / 2 ^ 33" using assms by (simp_all add: S_def)
  then have small: "S < 2 ^ 20" by simp
  note small' = small[folded ex]
  show "\<bar>dval (plus_double (Double 100000 0) p) - (100000 + dval p)\<bar> \<le> 1 / 2 ^ 34"
    using round_double_error[OF small'] unfolding t ex S_def .
  have "real_of_int (100000 * 2 ^ 33) / 2 ^ 33 \<le> dval (plus_double (Double 100000 0) p)"
    unfolding t by (rule round_double_ge[OF small']) (simp add: ex S0)
  then show "100000 \<le> dval (plus_double (Double 100000 0) p)" by simp
  have "S \<le> real_of_int (1000000 * 2 ^ 33 - 1) / 2 ^ 33" using S1 by (simp add: field_simps)
  then have "dval (plus_double (Double 100000 0) p) \<le> real_of_int (1000000 * 2 ^ 33 - 1) / 2 ^ 33"
    unfolding t by (intro round_double_le[OF small']) (simp only: ex)
  then show "dval (plus_double (Double 100000 0) p) \<le> 1000000 - 1 / 2 ^ 33"
    by (simp add: field_simps)
qed

lemma otp_value_bounds:
  assumes "is_unit_double r"
  shows "100000 \<le> dval (plus_double (Double 100000 0) (times_double r (Double 900000 0)))"
    and "dval (plus_double (Double 100000 0) (times_double r (Double 900000 0))) < 1000000"
    and "\<bar>dval (plus_double (Double 100000 0) (times_double r (Double 900000 0)))
           - (100000 + dval r * 900000)\<bar> \<le> 1 / 2 ^ 33"
proof -
  note p = product_bounds[OF assms]
  note s = sum_bounds[OF p(2) p(3)]
  show "100000 \<le> dval (plus_double (Double 100000 0) (times_double r (Double 900000 0)))"
    by (rule s(2))
  show "dval (plus_double (Double 100000 0) (times_double r (Double 900000 0))) < 1000000"
    using s(3) by simp
  show "\<bar>dval (plus_double (Double 100000 0) (times_double r (Double 900000 0)))
           - (100000 + dval r * 900000)\<bar> \<le> 1 / 2 ^ 33"
  proof -
    have h: "(1::real) / 2 ^ 34 + 1 / 2 ^ 34 = 1 / 2 ^ 33" by simp
    show ?thesis using p(1) s(1) h by linarith
  qed
qed

lemma bitlen_eq: "2 ^ k \<le> n \<Longrightarrow> n < 2 ^ Suc k \<Longrightarrow> bitlen n = Suc k"
proof -
  assume lo: "2 ^ k \<le> n" and hi: "n < 2 ^ Suc k"
  have pos: "0 < n" using lo by (metis not_gr_zero not_le zero_less_numeral zero_less_power)
  have "(2::nat) ^ k < 2 ^ bitlen n" using lo bitlen_upper[of n] by linarith
  then have a: "k < bitlen n" by (simp only: power_strict_increasing_iff one_less_numeral_iff semiring_norm)
  have "(2::nat) ^ bitlen n < 2 ^ Suc (Suc k)" using bitlen_lower[OF pos] hi by simp
  then have "bitlen n < Suc (Suc k)" by (simp only: power_strict_increasing_iff one_less_numeral_iff semiring_norm)
  with a show ?thesis by simp
qed

subsection \<open>The generated code\<close>

lemma digit_char_inj: "a < 10 \<Longrightarrow> b < 10 \<Longrightarrow> digit_char a = digit_char b \<Longrightarrow> a = b"
proof -
  assume a: "a < 10" and b: "b < 10" and eq: "digit_char a = digit_char b"
  have "distinct ''0123456789''" by simp
  moreover have "a < length ''0123456789''" "b < length ''0123456789''" using a b by simp_all
  ultimately show "a = b" using eq unfolding digit_char_def by (simp only: nth_eq_iff_index_eq)
qed

lemma digits_inj: "digits a = digits b \<Longrightarrow> a = b"
proof (induction a arbitrary: b rule: digits.induct)
  case (1 a)
  show ?case
  proof (cases "a < 10")
    case True
    then have da: "digits a = [digit_char a]" by (subst digits.simps) simp
    show ?thesis
    proof (cases "b < 10")
      case True
      then have "digits b = [digit_char b]" by (subst digits.simps) simp
      with da "1.prems" have "digit_char a = digit_char b" by simp
      with \<open>a < 10\<close> True show ?thesis by (rule digit_char_inj)
    next
      case False
      then have "digits b = digits (b div 10) @ [digit_char (b mod 10)]" by (subst digits.simps) simp
      with da "1.prems" have "digits (b div 10) = []" by simp
      then show ?thesis by (simp add: digits_not_Nil)
    qed
  next
    case False
    then have da: "digits a = digits (a div 10) @ [digit_char (a mod 10)]" by (subst digits.simps) simp
    show ?thesis
    proof (cases "b < 10")
      case True
      then have "digits b = [digit_char b]" by (subst digits.simps) simp
      with da "1.prems" have "digits (a div 10) = []" by simp
      then show ?thesis by (simp add: digits_not_Nil)
    next
      case b: False
      then have "digits b = digits (b div 10) @ [digit_char (b mod 10)]" by (subst digits.simps) simp
      with da "1.prems" have h: "digits (a div 10) = digits (b div 10)"
        and l: "digit_char (a mod 10) = digit_char (b mod 10)" by simp_all
      from "1.IH"[OF False h] have "a div 10 = b div 10" .
      moreover have "a mod 10 = b mod 10" by (rule digit_char_inj[OF _ _ l]) simp_all
      ultimately show ?thesis by (metis div_mult_mod_eq)
    qed
  qed
qed

lemma toString_inj: "0 \<le> a \<Longrightarrow> 0 \<le> b \<Longrightarrow> toString a = toString b \<Longrightarrow> a = b"
proof -
  assume a: "0 \<le> a" and b: "0 \<le> b" and eq: "toString a = toString b"
  then have "digits (nat a) = digits (nat b)" by (simp add: toString_def)
  then have "nat a = nat b" by (rule digits_inj)
  then show ?thesis using a b by simp
qed

lemma generateOTP_floor:
  "generateOTP r =
     toString \<lfloor>dval (plus_double (Double 100000 0) (times_double r (Double 900000 0)))\<rfloor>"
  by (simp only: generateOTP_def floor_double_eq)

lemma generateOTP_number:
  assumes "is_unit_double r"
  shows "\<exists>n. 100000 \<le> n \<and> n \<le> 999999 \<and> generateOTP r = toString n
           \<and> real_of_int n - 1 / 2 ^ 33 \<le> 100000 + dval r * 900000
           \<and> 100000 + dval r * 900000 < real_of_int n + 1 + 1 / 2 ^ 33"
proof -
  define v where "v = dval (plus_double (Double 100000 0) (times_double r (Double 900000 0)))"
  note b = otp_value_bounds[OF assms, folded v_def]
  define n where "n = \<lfloor>v\<rfloor>"
  have g: "generateOTP r = toString n" by (simp only: generateOTP_floor v_def n_def)
  have lo: "100000 \<le> n" unfolding n_def using b(1) by (simp add: le_floor_iff)
  have "n < 1000000" unfolding n_def using b(2) by (simp add: floor_less_iff)
  then have hi: "n \<le> 999999" by simp
  have n1: "real_of_int n \<le> v" and n2: "v < real_of_int n + 1" unfolding n_def by linarith+
  have w1: "real_of_int n - 1 / 2 ^ 33 \<le> 100000 + dval r * 900000" using n1 b(3) by linarith
  have w2: "100000 + dval r * 900000 < real_of_int n + 1 + 1 / 2 ^ 33" using n2 b(3) by linarith
  show ?thesis using lo hi g w1 w2 by blast
qed

lemma generateOTP_window:
  assumes "is_unit_double r"
    and "real_of_int n + 1 / 2 ^ 33 \<le> 100000 + dval r * 900000"
    and "100000 + dval r * 900000 < real_of_int n + 1 - 1 / 2 ^ 33"
  shows "generateOTP r = toString n"
proof -
  define v where "v = dval (plus_double (Double 100000 0) (times_double r (Double 900000 0)))"
  note b = otp_value_bounds[OF assms(1), folded v_def]
  have "real_of_int n \<le> v" using assms(2) b(3) by linarith
  moreover have "v < real_of_int n + 1" using assms(3) b(3) by linarith
  ultimately have "\<lfloor>v\<rfloor> = n" by (simp add: floor_eq_iff)
  then show ?thesis by (simp only: generateOTP_floor v_def)
qed

lemma generateOTP_only:
  assumes "is_unit_double r" and "0 \<le> n" and "generateOTP r = toString n"
  shows "real_of_int n - 1 / 2 ^ 33 \<le> 100000 + dval r * 900000
         \<and> 100000 + dval r * 900000 < real_of_int n + 1 + 1 / 2 ^ 33"
proof -
  obtain k where k: "100000 \<le> k" "generateOTP r = toString k"
    and w: "real_of_int k - 1 / 2 ^ 33 \<le> 100000 + dval r * 900000"
      "100000 + dval r * 900000 < real_of_int k + 1 + 1 / 2 ^ 33"
    using generateOTP_number[OF assms(1)] by blast
  have "toString n = toString k" using assms(3) k(2) by simp
  then have "n = k" using assms(2) k(1) by (intro toString_inj) simp_all
  then show ?thesis using w by simp
qed

lemma generateOTP_shape:
  assumes "is_unit_double r"
  shows "length (generateOTP r) = 6 \<and> set (generateOTP r) \<subseteq> set ''0123456789''
         \<and> hd (generateOTP r) \<noteq> CHR ''0''"
proof -
  obtain i where lo: "100000 \<le> i" and hi: "i \<le> 999999" and g: "generateOTP r = toString i"
    using generateOTP_number[OF assms] by blast
  define n where "n = nat i"
  have gd: "generateOTP r = digits n" using g lo by (simp add: toString_def n_def)
  have l: "10 ^ 5 \<le> n" and h: "n < 10 ^ Suc 5" using lo hi by (simp_all add: n_def)
  have "length (digits n) = Suc 5" using l h by (rule digits_length)
  then have "length (generateOTP r) = 6" using gd by simp
  moreover have "set (generateOTP r) \<subseteq> set ''0123456789''" using digits_set[of n] gd by simp
  moreover have "0 < n" using l by simp
  then have "hd (generateOTP r) \<noteq> CHR ''0''" using digits_hd[of n] gd by simp
  ultimately show ?thesis by blast
qed

lemma generateOTP_onto:
  assumes "100000 \<le> n" and "n \<le> 999999"
  shows "toString n \<in> generateOTP ` unit_doubles"
proof -
  define a where "a = nat (n - 100000)"
  define k where "k = ((2 * a + 1) * 2 ^ 52) div 900000"
  define r where "r = Double k (- 53)"
  have a: "a \<le> 899999" and an: "real a = real_of_int n - 100000" using assms by (simp_all add: a_def)
  have k1: "k * 900000 \<le> (2 * a + 1) * 2 ^ 52" unfolding k_def by simp
  have k2: "(2 * a + 1) * 2 ^ 52 < (k + 1) * 900000" unfolding k_def
    by (simp add: dividend_less_div_times)
  have "real (k * 900000) \<le> real ((2 * a + 1) * 2 ^ 52)" using k1 by (simp only: of_nat_le_iff)
  then have r1: "real k * 900000 \<le> (2 * real a + 1) * 2 ^ 52" by simp
  have "real ((2 * a + 1) * 2 ^ 52) < real ((k + 1) * 900000)" using k2 by (simp only: of_nat_less_iff)
  then have r2: "(2 * real a + 1) * 2 ^ 52 < (real k + 1) * 900000" by simp
  have d: "dval r = real k / 2 ^ 53" by (simp add: r_def dval_def)
  have "real k * 900000 \<le> (2 * 899999 + 1) * 2 ^ 52" using r1 a by (simp add: algebra_simps)
  then have kb: "real k < 2 ^ 53" by simp
  then have "real k < real (2 ^ 53)" by simp
  then have km: "k < 2 ^ 53" by (simp only: of_nat_less_iff)
  have "dval r < 1" unfolding d using kb by simp
  then have u: "is_unit_double r" using km by (simp add: is_unit_double_def r_def)
  have y1: "dval r * 900000 \<le> real a + 1 / 2" unfolding d using r1 by (simp add: field_simps)
  have y2: "real a + 1 / 2 - 900000 / 2 ^ 53 < dval r * 900000" unfolding d using r2
    by (simp add: field_simps)
  have "generateOTP r = toString n"
  proof (rule generateOTP_window[OF u])
    show "real_of_int n + 1 / 2 ^ 33 \<le> 100000 + dval r * 900000" using y2 an by simp
    show "100000 + dval r * 900000 < real_of_int n + 1 - 1 / 2 ^ 33" using y1 an by simp
  qed
  then show ?thesis using u unfolding unit_doubles_def by (metis imageI mem_Collect_eq)
qed

lemma generateOTP_nonneg:
  assumes "is_unit_double r" and "generateOTP r = toString n"
  shows "0 \<le> n"
proof (rule ccontr)
  assume "\<not> 0 \<le> n"
  then have "CHR ''-'' \<in> set (toString n)" by (simp add: toString_def)
  moreover have "set (toString n) \<subseteq> set ''0123456789''"
    using generateOTP_shape[OF assms(1)] assms(2) by simp
  ultimately show False by auto
qed

subsection \<open>The collection and \<^verbatim>\<open>save\<close>\<close>

lemma set_updateOne: "set (updateOne u db) \<subseteq> insert u (set db)"
  by (induction db) auto

lemma find_updateOne:
  "find (\<lambda>v. user_id v = user_id u) db = Some w \<Longrightarrow>
   find (\<lambda>v. user_id v = user_id u) (updateOne u db) = Some u"
  by (induction db) (auto split: if_splits)

lemma findById_Some: "findById db i = Some u \<Longrightarrow> user_id u = i \<and> u \<in> set db"
  by (auto simp: findById_def find_Some_iff)

lemma findOne_email_Some: "findOne_email db a = Some u \<Longrightarrow> email u = set_email a \<and> u \<in> set db"
  by (auto simp: findOne_email_def find_Some_iff)

lemma findOne_email_None: "findOne_email db a = None \<Longrightarrow> \<forall>v\<in>set db. email v \<noteq> set_email a"
  by (auto simp: findOne_email_def find_None_iff)

lemma findOne_email_append:
  "email u = set_email a \<Longrightarrow> findOne_email (db @ [u]) a \<noteq> None"
  by (auto simp: findOne_email_def find_None_iff)

lemma findById_updateOne:
  "findById db i = Some w \<Longrightarrow> user_id u = i \<Longrightarrow> findById (updateOne u db) i = Some u"
  using find_updateOne[of u db w] by (simp add: findById_def)


lemma save_loaded: "validate u \<Longrightarrow> save e False False u db = Inr (updateOne u db)"
  by (simp add: save_def pre_save_def)

lemma save_new:
  "validate u \<Longrightarrow> user_id u \<notin> user_id ` set db \<Longrightarrow> \<forall>v\<in>set db. email v \<noteq> email u \<Longrightarrow>
   save e True m u db = Inr (db @ [pre_save e m u])"
proof -
  assume v: "validate u" and i: "user_id u \<notin> user_id ` set db"
    and m: "\<forall>v\<in>set db. email v \<noteq> email u"
  have same: "user_id (pre_save e m u) = user_id u" "email (pre_save e m u) = email u"
    by (simp_all add: pre_save_def)
  have "\<forall>v\<in>set db. user_id v \<noteq> user_id u" using i by (metis imageI)
  then have "\<not> list_ex (\<lambda>v. user_id v = user_id u \<or> email v = email u) db"
    using m by (simp add: list_ex_iff)
  then show ?thesis using v by (simp add: save_def Let_def same)
qed

lemma validate_update [simp]:
  "validate (u\<lparr>otp := a\<rparr>) = validate u"
  "validate (u\<lparr>otpExpiry := b\<rparr>) = validate u"
  "validate (u\<lparr>isVerified := c\<rparr>) = validate u"
  by (simp_all add: validate_def)

lemma signup_db:
  "snd (signup e req db) = db \<or>
   (\<exists>p. body_password req = Some p \<and> p \<noteq> [] \<and>
     snd (signup e req db) =
       db @ [\<lparr>user_id = new_id e, email = set_email (body_email req),
               password = Some (bcrypt_hash e p 10), googleId = None, name = body_name req,
               dateOfBirth = body_dateOfBirth req, isVerified = False,
               otp = Some (generateOTP (math_random e)),
               otpExpiry = Some (now e + 10 * 60 * 1000)\<rparr>])"
  by (auto simp: signup_def Let_def save_def pre_save_def validate_def truthy_def
           split: option.splits if_splits)

lemma verifyOTP_db:
  "snd (verifyOTP e req db) = db \<or>
   (\<exists>u. findById db (verify_userId req) = Some u \<and>
     snd (verifyOTP e req db) = updateOne (u\<lparr>isVerified := True, otp := None, otpExpiry := None\<rparr>) db)"
  by (auto simp: verifyOTP_def Let_def save_def pre_save_def split: option.splits if_splits)

lemma signin_db:
  "snd (signin e a db) = db \<or>
   (\<exists>u. findOne_email db a = Some u \<and>
     snd (signin e a db) =
       updateOne (u\<lparr>otp := Some (generateOTP (math_random e)),
                     otpExpiry := Some (now e + 10 * 60 * 1000)\<rparr>) db)"
  by (auto simp: signin_def Let_def save_def pre_save_def split: option.splits if_splits)

lemma resendOTP_db:
  "snd (resendOTP e i db) = db \<or>
   (\<exists>u. findById db i = Some u \<and>
     snd (resendOTP e i db) =
       updateOne (u\<lparr>otp := Some (generateOTP (math_random e)),
                     otpExpiry := Some (now e + 10 * 60 * 1000)\<rparr>) db)"
  by (auto simp: resendOTP_def Let_def save_def pre_save_def split: option.splits if_splits)

lemma googleAuth_db:
  "snd (googleAuth e t db) = db \<or>
   (\<exists>p. verifyIdToken e t = Ticket (Some p) \<and> findOne_email db (payload_email p) = None \<and>
     snd (googleAuth e t db) =
       db @ [\<lparr>user_id = new_id e, email = set_email (payload_email p), password = None,
               googleId = Some (payload_sub p), name = payload_name p, dateOfBirth = None,
               isVerified = True, otp = None, otpExpiry = None\<rparr>])"
  by (auto simp: googleAuth_def Let_def save_def pre_save_def split: option.splits if_splits ticket.splits)

subsection \<open>What each handler answers\<close>

lemma signup_existing:
  assumes "findOne_email db (body_email req) = Some u"
  shows "signup e req db =
           (if validationErrors req \<noteq> [] then
              (\<lparr>status = 400, body = Errors (validationErrors req)\<rparr>, db)
            else (\<lparr>status = 400, body = Error ''User already exists''\<rparr>, db))"
  using assms by (simp add: signup_def)

lemma signup_new:
  assumes "validationErrors req = []" and "findOne_email db (body_email req) = None"
    and "set_email (body_email req) \<noteq> []" and "body_name req \<noteq> []"
    and "body_password req = Some pw" and "pw \<noteq> []"
    and "new_id e \<notin> user_id ` set db"
  shows "signup e req db =
           (if sendMail e (body_email req) (generateOTP (math_random e))
            then \<lparr>status = 201, body = Message ''OTP sent to your email'' (Some (new_id e))\<rparr>
            else \<lparr>status = 500, body = Error ''Failed to create account''\<rparr>,
            db @ [\<lparr>user_id = new_id e, email = set_email (body_email req),
                    password = Some (bcrypt_hash e pw 10), googleId = None, name = body_name req,
                    dateOfBirth = body_dateOfBirth req, isVerified = False,
                    otp = Some (generateOTP (math_random e)),
                    otpExpiry = Some (now e + 10 * 60 * 1000)\<rparr>])"
proof -
  let ?u = "\<lparr>user_id = new_id e, email = set_email (body_email req),
             password = body_password req, googleId = None, name = body_name req,
             dateOfBirth = body_dateOfBirth req, isVerified = False,
             otp = Some (generateOTP (math_random e)),
             otpExpiry = Some (now e + 10 * 60 * 1000)\<rparr>"
  have v: "validate ?u" using assms(3-6) by (simp add: validate_def truthy_def)
  have i: "user_id ?u \<notin> user_id ` set db" using assms(7) by simp
  have m: "\<forall>v\<in>set db. email v \<noteq> email ?u"
    using findOne_email_None[OF assms(2)] by simp
  have "save e True (body_password req \<noteq> None) ?u db =
          Inr (db @ [pre_save e (body_password req \<noteq> None) ?u])"
    by (rule save_new[OF v i m])
  moreover have "pre_save e (body_password req \<noteq> None) ?u = ?u\<lparr>password := Some (bcrypt_hash e pw 10)\<rparr>"
    using assms(5,6) by (simp add: pre_save_def truthy_def)
  ultimately show ?thesis using assms(1,2) by (simp add: signup_def Let_def)
qed

lemma googleAuth_existing:
  assumes "verifyIdToken e token = Ticket (Some p)" and "findOne_email db (payload_email p) = Some u"
  shows "googleAuth e token db =
           (\<lparr>status = 200, body = Session (jwt_sign e (user_id u)) (user_id u) (email u) (name u)\<rparr>, db)"
  using assms by (simp add: googleAuth_def generateToken_def)

lemma googleAuth_new:
  assumes "verifyIdToken e token = Ticket (Some p)"
    and "findOne_email db (payload_email p) = None"
    and "payload_sub p \<noteq> []" and "payload_name p \<noteq> []" and "set_email (payload_email p) \<noteq> []"
    and "new_id e \<notin> user_id ` set db"
  shows "googleAuth e token db =
           (\<lparr>status = 200,
             body = Session (jwt_sign e (new_id e)) (new_id e) (set_email (payload_email p))
                      (payload_name p)\<rparr>,
            db @ [\<lparr>user_id = new_id e, email = set_email (payload_email p), password = None,
                    googleId = Some (payload_sub p), name = payload_name p, dateOfBirth = None,
                    isVerified = True, otp = None, otpExpiry = None\<rparr>])"
proof -
  let ?u = "\<lparr>user_id = new_id e, email = set_email (payload_email p), password = None,
             googleId = Some (payload_sub p), name = payload_name p, dateOfBirth = None,
             isVerified = True, otp = None, otpExpiry = None\<rparr>"
  have v: "validate ?u" using assms(3-5) by (simp add: validate_def truthy_def)
  have i: "user_id ?u \<notin> user_id ` set db" using assms(6) by simp
  have m: "\<forall>v\<in>set db. email v \<noteq> email ?u"
    using findOne_email_None[OF assms(2)] by simp
  have "save e True False ?u db = Inr (db @ [?u])"
    using save_new[OF v i m, of e False] by (simp add: pre_save_def)
  then show ?thesis using assms(1,2) by (simp add: googleAuth_def generateToken_def Let_def)
qed

lemma googleAuth_no_name:
  assumes "verifyIdToken e token = Ticket (Some p)"
    and "findOne_email db (payload_email p) = None" and "payload_name p = []"
  shows "googleAuth e token db =
           (\<lparr>status = 500, body = Error ''Google authentication failed''\<rparr>, db)"
  using assms by (simp add: googleAuth_def Let_def save_def validate_def)

subsection \<open>What each handler writes\<close>

lemma issued_by_update:
  "v \<in> set (updateOne (u\<lparr>otp := Some c, otpExpiry := Some t\<rparr>) db) \<Longrightarrow>
   v \<in> set db \<or> (otp v = Some c \<and> otpExpiry v = Some t)"
  using set_updateOne[of "u\<lparr>otp := Some c, otpExpiry := Some t\<rparr>" db] by auto

lemma cleared_by_update:
  "v \<in> set (updateOne (u\<lparr>isVerified := True, otp := None, otpExpiry := None\<rparr>) db) \<Longrightarrow>
   v \<in> set db \<or> (otp v = None \<and> otpExpiry v = None \<and> isVerified v)"
  using set_updateOne[of "u\<lparr>isVerified := True, otp := None, otpExpiry := None\<rparr>" db] by auto

lemma signup_written:
  "v \<in> set (snd (signup e req db)) \<Longrightarrow>
   v \<in> set db \<or> (otp v = Some (generateOTP (math_random e)) \<and> otpExpiry v = Some (now e + 10 * 60 * 1000))"
  using signup_db[of e req db] by auto

lemma signin_written:
  "v \<in> set (snd (signin e a db)) \<Longrightarrow>
   v \<in> set db \<or> (otp v = Some (generateOTP (math_random e)) \<and> otpExpiry v = Some (now e + 10 * 60 * 1000))"
  using signin_db[of e a db] by (auto dest: issued_by_update)

lemma resendOTP_written:
  "v \<in> set (snd (resendOTP e i db)) \<Longrightarrow>
   v \<in> set db \<or> (otp v = Some (generateOTP (math_random e)) \<and> otpExpiry v = Some (now e + 10 * 60 * 1000))"
  using resendOTP_db[of e i db] by (auto dest: issued_by_update)

lemma verifyOTP_written:
  "v \<in> set (snd (verifyOTP e req db)) \<Longrightarrow>
   v \<in> set db \<or> (otp v = None \<and> otpExpiry v = None \<and> isVerified v)"
  using verifyOTP_db[of e req db] by (auto dest: cleared_by_update)

lemma googleAuth_written:
  "v \<in> set (snd (googleAuth e t db)) \<Longrightarrow>
   v \<in> set db \<or> (otp v = None \<and> otpExpiry v = None \<and> password v = None)"
  using googleAuth_db[of e t db] by auto

lemma password_updateOne:
  assumes "u \<in> set db" and "v \<in> set (updateOne (u\<lparr>otp := c, otpExpiry := t\<rparr>) db)"
  shows "\<exists>w\<in>set db. password v = password w"
proof -
  from assms(2) have "v = u\<lparr>otp := c, otpExpiry := t\<rparr> \<or> v \<in> set db"
    using set_updateOne[of "u\<lparr>otp := c, otpExpiry := t\<rparr>" db] by auto
  then show ?thesis using assms(1) by auto
qed

lemma password_updateOne_verified:
  assumes "u \<in> set db" and "v \<in> set (updateOne (u\<lparr>isVerified := b, otp := c, otpExpiry := t\<rparr>) db)"
  shows "\<exists>w\<in>set db. password v = password w"
proof -
  from assms(2) have "v = u\<lparr>isVerified := b, otp := c, otpExpiry := t\<rparr> \<or> v \<in> set db"
    using set_updateOne[of "u\<lparr>isVerified := b, otp := c, otpExpiry := t\<rparr>" db] by auto
  then show ?thesis using assms(1) by auto
qed

lemma signup_password:
  "v \<in> set (snd (signup e req db)) \<Longrightarrow>
   v \<in> set db \<or> (\<exists>p. body_password req = Some p \<and> p \<noteq> [] \<and> password v = Some (bcrypt_hash e p 10))"
  using signup_db[of e req db] by auto

lemma verifyOTP_password:
  "v \<in> set (snd (verifyOTP e req db)) \<Longrightarrow> \<exists>w\<in>set db. password v = password w"
  using verifyOTP_db[of e req db]
  by (auto dest: findById_Some intro: password_updateOne_verified)

lemma signin_password:
  "v \<in> set (snd (signin e a db)) \<Longrightarrow> \<exists>w\<in>set db. password v = password w"
  using signin_db[of e a db]
  by (auto dest: findOne_email_Some intro: password_updateOne)

lemma resendOTP_password:
  "v \<in> set (snd (resendOTP e i db)) \<Longrightarrow> \<exists>w\<in>set db. password v = password w"
  using resendOTP_db[of e i db]
  by (auto dest: findById_Some intro: password_updateOne)




subsection \<open>The sample values\<close>

lemma generateOTP_half: "generateOTP (Double 1 (- 1)) = ''550000''"
proof -
  have b1: "bitlen 900000 = Suc 19" by (rule bitlen_eq) simp_all
  have b2: "bitlen 1100000 = Suc 20" by (rule bitlen_eq) simp_all
  have p: "times_double (Double 1 (- 1)) (Double 900000 0) = Double 900000 (- 1)"
    by (simp add: times_double_def round_double_def b1)
  have s: "plus_double (Double 100000 0) (Double 900000 (- 1)) = Double 1100000 (- 1)"
    by (simp add: plus_double_def round_double_def b2)
  have f: "floor_double (Double 1100000 (- 1)) = 550000" by (simp add: floor_double_def)
  show ?thesis
    unfolding generateOTP_def p s f by (simp add: toString_def digits.simps digit_char_def)
qed

lemma generateOTP_half_Suc: "generateOTP (Double (Suc 0) (- 1)) = ''550000''"
  using generateOTP_half by simp

lemma unit_double_half: "is_unit_double (Double 1 (- 1))"
  by (simp add: is_unit_double_def dval_def)

lemma generateOTP_rounds_up:
  "generateOTP (Double 261493796235 (- 39)) = ''528089''"
proof -
  have b1: "bitlen 235344416611500000 = Suc 57" by (rule bitlen_eq) simp_all
  have b2: "bitlen 9072499937509375 = Suc 53" by (rule bitlen_eq) simp_all
  have r1: "roundTiesToEven 235344416611500000 5 = 7354513019109375"
    by (simp add: roundTiesToEven_def)
  have r2: "roundTiesToEven 9072499937509375 (Suc 0) = 4536249968754688"
    by (simp add: roundTiesToEven_def)
  have p: "times_double (Double 261493796235 (- 39)) (Double 900000 0) = Double 7354513019109375 (- 34)"
    by (simp add: times_double_def round_double_def b1 r1)
  have s: "plus_double (Double 100000 0) (Double 7354513019109375 (- 34)) = Double 4536249968754688 (- 33)"
    by (simp add: plus_double_def round_double_def b2 r2)
  have f: "floor_double (Double 4536249968754688 (- 33)) = 528089" by (simp add: floor_double_def)
  show ?thesis
    unfolding generateOTP_def p s f by (simp add: toString_def digits.simps digit_char_def)
qed

lemma exact_below_528089:
  "is_unit_double (Double 261493796235 (- 39))
   \<and> 100000 + dval (Double 261493796235 (- 39)) * 900000 < 528089"
  by (simp add: is_unit_double_def dval_def)

lemma toString_550000: "toString 550000 = ''550000''"
  by (simp add: toString_def digits.simps digit_char_def)

lemma toString_114062: "toString 114062 = ''114062''"
  by (simp add: toString_def digits.simps digit_char_def)

lemma unit_double_sixty_fourth:
  "is_unit_double (Double 1 (- 6)) \<and> 100000 + dval (Double 1 (- 6)) * 900000 = 114062 + 1 / 2"
  by (simp add: is_unit_double_def dval_def)

lemma set_email_ann: "set_email ''Ann@X.com'' = ''ann@x.com''"
  by (simp add: set_email_def trim_def toLowerCase_def isSpace_def)

lemma set_email_bob: "set_email ''Bob@X.com '' = ''bob@x.com''"
  by (simp add: set_email_def trim_def toLowerCase_def isSpace_def)

lemma set_email_carol: "set_email ''carol@x.com'' = ''carol@x.com''"
  by (simp add: set_email_def trim_def toLowerCase_def isSpace_def)

lemma validate_sample_user: "validate sample_user"
  by (simp add: validate_def sample_user_def truthy_def)

lemma signup_sample:
  "signup sample_env sample_signup [sample_user] =
     (\<lparr>status = 201, body = Message ''OTP sent to your email'' (Some ''id2'')\<rparr>,
      [sample_user,
       \<lparr>user_id = ''id2'', email = ''bob@x.com'', password = Some ''$2a$10$hunter22'',
        googleId = None, name = ''Bob'', dateOfBirth = None, isVerified = False,
        otp = Some ''550000'', otpExpiry = Some 601000\<rparr>])"
  by (simp add: signup_def sample_signup_def sample_env_def sample_user_def findOne_email_def
        set_email_bob generateOTP_half_Suc save_def validate_def truthy_def pre_save_def Let_def)

lemma signin_sample:
  "signin sample_env '' ANN@x.com'' [sample_user] =
     (\<lparr>status = 200, body = Message ''OTP sent to your email'' (Some ''id1'')\<rparr>,
      [sample_user\<lparr>otp := Some ''550000'', otpExpiry := Some 601000\<rparr>])"
  by (simp add: signin_def sample_env_def sample_user_def findOne_email_def
        set_email_def trim_def toLowerCase_def isSpace_def generateOTP_half_Suc save_def validate_def
        truthy_def pre_save_def Let_def)

lemma resendOTP_sample:
  "resendOTP sample_env ''id1'' [sample_user] =
     (\<lparr>status = 200, body = Message ''OTP resent successfully'' None\<rparr>,
      [sample_user\<lparr>otp := Some ''550000'', otpExpiry := Some 601000\<rparr>])"
  by (simp add: resendOTP_def sample_env_def sample_user_def findById_def
        generateOTP_half_Suc save_def validate_def truthy_def pre_save_def Let_def)

lemma verifyOTP_at_expiry_sample:
  "verifyOTP sample_env \<lparr>verify_userId = ''id1'', verify_otp = Some ''123456''\<rparr> [sample_user]
       = (\<lparr>status = 200, body = Session ''jwt:id1'' ''id1'' ''ann@x.com'' ''Ann''\<rparr>,
          [sample_user\<lparr>isVerified := True, otp := None, otpExpiry := None\<rparr>])"
  by (simp add: verifyOTP_def findById_def save_def pre_save_def validate_def truthy_def
        generateToken_def sample_env_def sample_user_def Let_def)

section \<open>Properties\<close>

subsection \<open>VerifyOTP: code and expiry\<close>

text \<open>
  C1 as stated: VerifyOTP succeeds if and only if the stored code equals the supplied
  one and \<open>now < otpExpiry\<close>, so that at \<open>now = otpExpiry\<close> it fails. The handler
  rejects when \<^verbatim>\<open>user.otpExpiry < new Date()\<close>, so at \<open>now = otpExpiry\<close> the code is
  still accepted: the sample user's challenge expires at 1000, the sample clock reads
  1000, and the handler answers 200 with a session token and clears the challenge.
\<close>

theorem verifyOTP_at_expiry_counterexample:
  "otpExpiry sample_user = Some (now sample_env)
   \<and> otp sample_user = Some ''123456''
   \<and> verifyOTP sample_env \<lparr>verify_userId = ''id1'', verify_otp = Some ''123456''\<rparr> [sample_user]
       = (\<lparr>status = 200, body = Session ''jwt:id1'' ''id1'' ''ann@x.com'' ''Ann''\<rparr>,
          [sample_user\<lparr>isVerified := True, otp := None, otpExpiry := None\<rparr>])"
  by (simp add: verifyOTP_def findById_def save_def pre_save_def validate_def truthy_def
        generateToken_def sample_env_def sample_user_def Let_def)

text \<open>
  C1, amended. For a stored user \<open>u\<close> (found by the request's \<open>userId\<close>, and
  satisfying the schema, which every save checks), a supplied code and a clock
  reading \<open>now\<close>: VerifyOTP succeeds if and only if the stored \<open>otp\<close> equals
  the supplied code and \<open>otpExpiry\<close> is present with \<open>now \<le> otpExpiry\<close>. On success
  the answer is 200 with a token signed for \<open>u\<close>'s id, and the one write leaves
  \<open>otp\<close> and \<open>otpExpiry\<close> absent and \<open>isVerified\<close> true; otherwise the answer is
  400 \<^verbatim>\<open>Invalid or expired OTP\<close> and the collection is untouched.
\<close>

theorem verifyOTP_succeeds_iff:
  assumes "findById db (verify_userId req) = Some u" and "validate u"
  shows "(otp u = verify_otp req \<and> (\<exists>t. otpExpiry u = Some t \<and> now e \<le> t) \<longrightarrow>
            verifyOTP e req db =
              (\<lparr>status = 200, body = Session (jwt_sign e (user_id u)) (user_id u) (email u) (name u)\<rparr>,
               updateOne (u\<lparr>isVerified := True, otp := None, otpExpiry := None\<rparr>) db)
            \<and> findById (snd (verifyOTP e req db)) (verify_userId req) =
                Some (u\<lparr>isVerified := True, otp := None, otpExpiry := None\<rparr>))
       \<and> (\<not> (otp u = verify_otp req \<and> (\<exists>t. otpExpiry u = Some t \<and> now e \<le> t)) \<longrightarrow>
            verifyOTP e req db = (\<lparr>status = 400, body = Error ''Invalid or expired OTP''\<rparr>, db))"
proof (intro conjI impI)
  assume ok: "otp u = verify_otp req \<and> (\<exists>t. otpExpiry u = Some t \<and> now e \<le> t)"
  let ?u' = "u\<lparr>isVerified := True, otp := None, otpExpiry := None\<rparr>"
  have s: "save e False False ?u' db = Inr (updateOne ?u' db)"
    by (rule save_loaded) (simp add: assms(2))
  show r: "verifyOTP e req db =
              (\<lparr>status = 200, body = Session (jwt_sign e (user_id u)) (user_id u) (email u) (name u)\<rparr>,
               updateOne ?u' db)"
    using assms(1) ok s by (auto simp: verifyOTP_def generateToken_def Let_def)
  have "user_id ?u' = verify_userId req" using assms(1) by (simp add: findById_Some)
  then have "findById (updateOne ?u' db) (verify_userId req) = Some ?u'"
    using assms(1) by (rule findById_updateOne[rotated])
  then show "findById (snd (verifyOTP e req db)) (verify_userId req) = Some ?u'"
    by (simp add: r)
next
  assume bad: "\<not> (otp u = verify_otp req \<and> (\<exists>t. otpExpiry u = Some t \<and> now e \<le> t))"
  then show "verifyOTP e req db = (\<lparr>status = 400, body = Error ''Invalid or expired OTP''\<rparr>, db)"
    using assms(1) by (auto simp: verifyOTP_def split: option.splits)
qed

theorem verifyOTP_succeeds_iff_witness:
  "findById [sample_user] ''id1'' = Some sample_user \<and> validate sample_user
   \<and> verifyOTP (sample_env\<lparr>now := 999\<rparr>) \<lparr>verify_userId = ''id1'', verify_otp = Some ''123456''\<rparr> [sample_user]
       = (\<lparr>status = 200, body = Session ''jwt:id1'' ''id1'' ''ann@x.com'' ''Ann''\<rparr>,
          [sample_user\<lparr>isVerified := True, otp := None, otpExpiry := None\<rparr>])
   \<and> verifyOTP (sample_env\<lparr>now := 1001\<rparr>) \<lparr>verify_userId = ''id1'', verify_otp = Some ''123456''\<rparr> [sample_user]
       = (\<lparr>status = 400, body = Error ''Invalid or expired OTP''\<rparr>, [sample_user])
   \<and> verifyOTP (sample_env\<lparr>now := 999\<rparr>) \<lparr>verify_userId = ''id1'', verify_otp = Some ''654321''\<rparr> [sample_user]
       = (\<lparr>status = 400, body = Error ''Invalid or expired OTP''\<rparr>, [sample_user])"
proof -
  have f: "findById [sample_user] ''id1'' = Some sample_user"
    by (simp add: findById_def sample_user_def)
  note v = validate_sample_user
  have a: "findById [sample_user] (verify_userId \<lparr>verify_userId = ''id1'', verify_otp = c\<rparr>) = Some sample_user" for c
    using f by simp
  show ?thesis
    using f v
      verifyOTP_succeeds_iff[OF a v, of "Some ''123456''" "sample_env\<lparr>now := 999\<rparr>"]
      verifyOTP_succeeds_iff[OF a v, of "Some ''123456''" "sample_env\<lparr>now := 1001\<rparr>"]
      verifyOTP_succeeds_iff[OF a v, of "Some ''654321''" "sample_env\<lparr>now := 999\<rparr>"]
    by (simp add: sample_env_def sample_user_def)
qed

subsection \<open>The issued code and its expiry\<close>

text \<open>
  C2 as stated: every code issued is drawn uniformly from the range 000000 to 999999,
  leading zeros allowed. \<^verbatim>\<open>generateOTP\<close> computes
  \<^verbatim>\<open>Math.floor(100000 + Math.random() * 900000)\<close>, which is never below 100000: a code
  with a leading zero, such as 000000, is issued for no double in \<open>[0, 1)\<close>. And the
  number floored is the double that the two rounded operations leave, not the exact
  value of \<open>100000 + r * 900000\<close>: for \<open>r = 261493796235 / 2 ^ 39\<close> the exact value is
  below 528089 and the code issued is 528089, so the draws of one code are not exactly
  those of an interval \<open>n \<le> 100000 + r * 900000 < n + 1\<close>.
\<close>

theorem otp_leading_zero_counterexample:
  "''000000'' \<notin> generateOTP ` unit_doubles
   \<and> is_unit_double (Double 261493796235 (- 39))
   \<and> 100000 + dval (Double 261493796235 (- 39)) * 900000 < 528089
   \<and> generateOTP (Double 261493796235 (- 39)) = ''528089''"
proof -
  have z: "''000000'' \<notin> generateOTP ` unit_doubles"
  proof
    assume "''000000'' \<in> generateOTP ` unit_doubles"
    then obtain r where r: "is_unit_double r" and eq: "generateOTP r = ''000000''"
      unfolding unit_doubles_def by auto
    from generateOTP_shape[OF r] eq show False by simp
  qed
  show ?thesis using z exact_below_528089 generateOTP_rounds_up by blast
qed

text \<open>
  C2, amended. For a draw \<open>r\<close> of \<^verbatim>\<open>Math.random()\<close>, a double in \<open>[0, 1)\<close>, the code is
  exactly 6 decimal digits, the first of them not 0: the decimal notation of a number
  from 100000 to 999999, and each number of that range is the code of some draw. The
  codes are drawn uniformly from that range, to the precision of the two roundings:
  every draw with \<open>n + 1 / 2 ^ 33 \<le> 100000 + r * 900000 < n + 1 - 1 / 2 ^ 33\<close> gives the code
  \<open>n\<close>, and every draw that gives the code \<open>n\<close> has
  \<open>n - 1 / 2 ^ 33 \<le> 100000 + r * 900000 < n + 1 + 1 / 2 ^ 33\<close>. So the draws of each of the
  900000 codes fill an interval of \<open>r\<close> of one and the same length, \<open>1 / 900000\<close>, but
  for \<open>1 / 2 ^ 33 / 900000\<close> at either end of it. Every user record that Signup, Signin or
  ResendOTP writes carries that code and an \<open>otpExpiry\<close> of exactly
  \<open>now + 10 * 60 * 1000\<close> milliseconds.
\<close>

theorem issued_otp_code_and_expiry:
  assumes "is_unit_double (math_random e)"
  shows "length (generateOTP (math_random e)) = 6
       \<and> set (generateOTP (math_random e)) \<subseteq> set ''0123456789''
       \<and> hd (generateOTP (math_random e)) \<noteq> CHR ''0''
       \<and> (\<exists>k\<in>{100000..999999}. generateOTP (math_random e) = toString k)
       \<and> (real_of_int n + 1 / 2 ^ 33 \<le> 100000 + dval (math_random e) * 900000
            \<and> 100000 + dval (math_random e) * 900000 < real_of_int n + 1 - 1 / 2 ^ 33 \<longrightarrow>
          generateOTP (math_random e) = toString n)
       \<and> (generateOTP (math_random e) = toString n \<longrightarrow>
            real_of_int n - 1 / 2 ^ 33 \<le> 100000 + dval (math_random e) * 900000
            \<and> 100000 + dval (math_random e) * 900000 < real_of_int n + 1 + 1 / 2 ^ 33)
       \<and> (\<forall>k\<in>{100000..999999}. toString k \<in> generateOTP ` unit_doubles)
       \<and> (\<forall>u\<in>set (snd (signup e req db)). u \<in> set db \<or>
             (otp u = Some (generateOTP (math_random e)) \<and> otpExpiry u = Some (now e + 10 * 60 * 1000)))
       \<and> (\<forall>u\<in>set (snd (signin e a db)). u \<in> set db \<or>
             (otp u = Some (generateOTP (math_random e)) \<and> otpExpiry u = Some (now e + 10 * 60 * 1000)))
       \<and> (\<forall>u\<in>set (snd (resendOTP e i db)). u \<in> set db \<or>
             (otp u = Some (generateOTP (math_random e)) \<and> otpExpiry u = Some (now e + 10 * 60 * 1000)))"
proof -
  note shape = generateOTP_shape[OF assms]
  have num: "\<exists>k\<in>{100000..999999}. generateOTP (math_random e) = toString k"
    using generateOTP_number[OF assms] by auto
  have inside: "real_of_int n + 1 / 2 ^ 33 \<le> 100000 + dval (math_random e) * 900000
            \<and> 100000 + dval (math_random e) * 900000 < real_of_int n + 1 - 1 / 2 ^ 33 \<longrightarrow>
          generateOTP (math_random e) = toString n"
    using generateOTP_window[OF assms] by blast
  have only: "generateOTP (math_random e) = toString n \<longrightarrow>
            real_of_int n - 1 / 2 ^ 33 \<le> 100000 + dval (math_random e) * 900000
            \<and> 100000 + dval (math_random e) * 900000 < real_of_int n + 1 + 1 / 2 ^ 33"
  proof
    assume g: "generateOTP (math_random e) = toString n"
    show "real_of_int n - 1 / 2 ^ 33 \<le> 100000 + dval (math_random e) * 900000
            \<and> 100000 + dval (math_random e) * 900000 < real_of_int n + 1 + 1 / 2 ^ 33"
      by (rule generateOTP_only[OF assms generateOTP_nonneg[OF assms g] g])
  qed
  have onto: "\<forall>k\<in>{100000..999999}. toString k \<in> generateOTP ` unit_doubles"
    by (simp add: generateOTP_onto)
  have su: "\<forall>u\<in>set (snd (signup e req db)). u \<in> set db \<or>
             (otp u = Some (generateOTP (math_random e)) \<and> otpExpiry u = Some (now e + 10 * 60 * 1000))"
    using signup_db[of e req db] by auto
  have si: "\<forall>u\<in>set (snd (signin e a db)). u \<in> set db \<or>
             (otp u = Some (generateOTP (math_random e)) \<and> otpExpiry u = Some (now e + 10 * 60 * 1000))"
    using signin_db[of e a db] by (auto dest: issued_by_update)
  have re: "\<forall>u\<in>set (snd (resendOTP e i db)). u \<in> set db \<or>
             (otp u = Some (generateOTP (math_random e)) \<and> otpExpiry u = Some (now e + 10 * 60 * 1000))"
    using resendOTP_db[of e i db] by (auto dest: issued_by_update)
  show ?thesis
    apply (intro conjI)
    using shape apply blast
    using shape apply blast
    using shape apply blast
    apply (rule num)
    apply (rule inside)
    apply (rule only)
    apply (rule onto)
    apply (rule su)
    apply (rule si)
    apply (rule re)
    done
qed

theorem issued_otp_code_and_expiry_witness:
  "is_unit_double (math_random sample_env)
   \<and> generateOTP (math_random sample_env) = ''550000''
   \<and> length (generateOTP (math_random sample_env)) = 6
   \<and> hd (generateOTP (math_random sample_env)) \<noteq> CHR ''0''
   \<and> 550000 - 1 / 2 ^ 33 \<le> 100000 + dval (math_random sample_env) * 900000
   \<and> 100000 + dval (math_random sample_env) * 900000 < 550000 + 1 + 1 / 2 ^ 33
   \<and> is_unit_double (Double 1 (- 6))
   \<and> 100000 + dval (Double 1 (- 6)) * 900000 = 114062 + 1 / 2
   \<and> generateOTP (Double 1 (- 6)) = ''114062''
   \<and> now sample_env + 10 * 60 * 1000 = 601000
   \<and> snd (resendOTP sample_env ''id1'' [sample_user])
       = [sample_user\<lparr>otp := Some ''550000'', otpExpiry := Some 601000\<rparr>]
   \<and> sample_user\<lparr>otp := Some ''550000'', otpExpiry := Some 601000\<rparr> \<notin> set [sample_user]
   \<and> otp (sample_user\<lparr>otp := Some ''550000'', otpExpiry := Some 601000\<rparr>)
       = Some (generateOTP (math_random sample_env))
   \<and> otpExpiry (sample_user\<lparr>otp := Some ''550000'', otpExpiry := Some 601000\<rparr>)
       = Some (now sample_env + 10 * 60 * 1000)"
proof -
  define e' where "e' = sample_env\<lparr>math_random := Double 1 (- 6)\<rparr>"
  have m: "math_random sample_env = Double 1 (- 1)" by (simp add: sample_env_def)
  have m': "math_random e' = Double 1 (- 6)" by (simp add: e'_def)
  have r: "is_unit_double (math_random sample_env)" by (simp only: m unit_double_half)
  have q: "is_unit_double (Double 1 (- 6))"
    and y: "100000 + dval (Double 1 (- 6)) * 900000 = 114062 + 1 / 2"
    using unit_double_sixty_fourth by blast+
  have r': "is_unit_double (math_random e')" by (simp only: m' q)
  have g: "generateOTP (math_random sample_env) = ''550000''"
    by (simp only: m generateOTP_half)
  have n: "now sample_env + 10 * 60 * 1000 = 601000" by (simp add: sample_env_def)
  have d: "sample_user\<lparr>otp := Some ''550000'', otpExpiry := Some 601000\<rparr> \<notin> set [sample_user]"
    by (simp add: sample_user_def)
  note t = issued_otp_code_and_expiry
             [OF r, of 550000 sample_signup "[sample_user]" "'' ANN@x.com''" "''id1''"]
  note t' = issued_otp_code_and_expiry
             [OF r', of 114062 sample_signup "[sample_user]" "'' ANN@x.com''" "''id1''"]
  have l: "length (generateOTP (math_random sample_env)) = 6" using t by blast
  have h: "hd (generateOTP (math_random sample_env)) \<noteq> CHR ''0''" using t by blast
  have g5: "generateOTP (math_random sample_env) = toString 550000"
    by (simp only: g toString_550000)
  have w: "real_of_int 550000 - 1 / 2 ^ 33 \<le> 100000 + dval (math_random sample_env) * 900000
           \<and> 100000 + dval (math_random sample_env) * 900000 < real_of_int 550000 + 1 + 1 / 2 ^ 33"
    using t g5 by blast
  have w1: "550000 - 1 / 2 ^ 33 \<le> 100000 + dval (math_random sample_env) * 900000"
    and w2: "100000 + dval (math_random sample_env) * 900000 < 550000 + 1 + 1 / 2 ^ 33"
    using w by simp_all
  have i1: "real_of_int 114062 + 1 / 2 ^ 33 \<le> 100000 + dval (math_random e') * 900000"
    and i2: "100000 + dval (math_random e') * 900000 < real_of_int 114062 + 1 - 1 / 2 ^ 33"
    unfolding m' y by simp_all
  have "generateOTP (math_random e') = toString 114062" using t' i1 i2 by blast
  then have g': "generateOTP (Double 1 (- 6)) = ''114062''" by (simp only: m' toString_114062)
  have s: "snd (resendOTP sample_env ''id1'' [sample_user])
             = [sample_user\<lparr>otp := Some ''550000'', otpExpiry := Some 601000\<rparr>]"
    by (simp add: resendOTP_sample)
  have o: "otp (sample_user\<lparr>otp := Some ''550000'', otpExpiry := Some 601000\<rparr>)
             = Some (generateOTP (math_random sample_env))"
    by (simp add: g)
  have x: "otpExpiry (sample_user\<lparr>otp := Some ''550000'', otpExpiry := Some 601000\<rparr>)
             = Some (now sample_env + 10 * 60 * 1000)"
    by (simp add: sample_env_def)
  show ?thesis using r g l h w1 w2 q y g' n s d o x by blast
qed

subsection \<open>GoogleAuth: a new or an existing user\<close>

text \<open>
  C3 as stated: given a valid provider token whose verified email matches no stored
  user, GoogleAuth creates a user. The handler copies \<^verbatim>\<open>payload.name\<close> into the new
  document and the schema requires \<^verbatim>\<open>name\<close>: for a valid token whose payload carries a
  subject and a new email and no name, \<^verbatim>\<open>save()\<close> rejects, the handler answers 500 and
  no user is created.
\<close>

theorem googleAuth_no_name_counterexample:
  "verifyIdToken sample_env ''token-carol'' = Ticket (Some carol_payload)
   \<and> payload_sub carol_payload = ''g-3''
   \<and> payload_email carol_payload = ''carol@x.com''
   \<and> payload_name carol_payload = []
   \<and> findOne_email [sample_user] (payload_email carol_payload) = None
   \<and> new_id sample_env \<notin> user_id ` set [sample_user]
   \<and> googleAuth sample_env ''token-carol'' [sample_user] =
       (\<lparr>status = 500, body = Error ''Google authentication failed''\<rparr>, [sample_user])"
  by (simp add: sample_env_def carol_payload_def sample_user_def findOne_email_def set_email_carol
        googleAuth_def Let_def save_def validate_def)

text \<open>
  C3, amended. Given a provider token that verifies to a payload whose email matches no
  stored user and that carries a name (and a subject and an email, each not empty: the
  schema requires them of the new document; the \<^verbatim>\<open>_id\<close> given to the new document is
  fresh), GoogleAuth creates exactly one user: \<open>isVerified\<close> true, no password,
  \<open>googleId\<close> the provider subject; the collection grows by that one record and the
  token is signed for its id. If the payload carries no name, GoogleAuth answers 500 and
  the collection is unchanged. If a user with that email exists, the collection is
  unchanged and the token is signed for the existing user's id.
\<close>

theorem googleAuth_provisions_once:
  assumes "verifyIdToken e token = Ticket (Some p)"
  shows "(findOne_email db (payload_email p) = None \<and> payload_sub p \<noteq> [] \<and> payload_name p \<noteq> []
            \<and> set_email (payload_email p) \<noteq> [] \<and> new_id e \<notin> user_id ` set db \<longrightarrow>
          googleAuth e token db =
            (\<lparr>status = 200,
              body = Session (jwt_sign e (new_id e)) (new_id e) (set_email (payload_email p))
                       (payload_name p)\<rparr>,
             db @ [\<lparr>user_id = new_id e, email = set_email (payload_email p), password = None,
                     googleId = Some (payload_sub p), name = payload_name p, dateOfBirth = None,
                     isVerified = True, otp = None, otpExpiry = None\<rparr>]))
       \<and> (findOne_email db (payload_email p) = None \<and> payload_name p = [] \<longrightarrow>
          googleAuth e token db =
            (\<lparr>status = 500, body = Error ''Google authentication failed''\<rparr>, db))
       \<and> (\<forall>u. findOne_email db (payload_email p) = Some u \<longrightarrow>
             googleAuth e token db =
               (\<lparr>status = 200,
                 body = Session (jwt_sign e (user_id u)) (user_id u) (email u) (name u)\<rparr>, db))"
  using googleAuth_new[OF assms] googleAuth_no_name[OF assms] googleAuth_existing[OF assms]
  by blast

theorem googleAuth_provisions_once_witness:
  "verifyIdToken sample_env ''token-bob'' = Ticket (Some bob_payload)
   \<and> findOne_email [sample_user] (payload_email bob_payload) = None
   \<and> payload_sub bob_payload \<noteq> [] \<and> payload_name bob_payload \<noteq> []
   \<and> set_email (payload_email bob_payload) \<noteq> []
   \<and> new_id sample_env \<notin> user_id ` set [sample_user]
   \<and> googleAuth sample_env ''token-bob'' [sample_user] =
       (\<lparr>status = 200, body = Session ''jwt:id2'' ''id2'' ''bob@x.com'' ''Bob''\<rparr>,
        [sample_user,
         \<lparr>user_id = ''id2'', email = ''bob@x.com'', password = None, googleId = Some ''g-1'',
          name = ''Bob'', dateOfBirth = None, isVerified = True, otp = None, otpExpiry = None\<rparr>])
   \<and> verifyIdToken sample_env ''token-carol'' = Ticket (Some carol_payload)
   \<and> findOne_email [sample_user] (payload_email carol_payload) = None
   \<and> payload_name carol_payload = []
   \<and> googleAuth sample_env ''token-carol'' [sample_user] =
       (\<lparr>status = 500, body = Error ''Google authentication failed''\<rparr>, [sample_user])
   \<and> findOne_email [sample_user] (payload_email ann_payload) = Some sample_user
   \<and> googleAuth sample_env ''token-ann'' [sample_user] =
       (\<lparr>status = 200, body = Session ''jwt:id1'' ''id1'' ''ann@x.com'' ''Ann''\<rparr>, [sample_user])"
proof -
  have t: "verifyIdToken sample_env ''token-bob'' = Ticket (Some bob_payload)"
    and t': "verifyIdToken sample_env ''token-ann'' = Ticket (Some ann_payload)"
    and t'': "verifyIdToken sample_env ''token-carol'' = Ticket (Some carol_payload)"
    by (simp_all add: sample_env_def)
  have f: "findOne_email [sample_user] (payload_email bob_payload) = None"
    by (simp add: findOne_email_def bob_payload_def set_email_bob sample_user_def)
  have f': "findOne_email [sample_user] (payload_email ann_payload) = Some sample_user"
    by (simp add: findOne_email_def ann_payload_def set_email_ann sample_user_def)
  have f'': "findOne_email [sample_user] (payload_email carol_payload) = None"
    by (simp add: findOne_email_def carol_payload_def set_email_carol sample_user_def)
  have p: "payload_sub bob_payload \<noteq> []" "payload_name bob_payload \<noteq> []"
    "set_email (payload_email bob_payload) \<noteq> []"
    by (simp_all add: bob_payload_def set_email_bob)
  have p'': "payload_name carol_payload = []" by (simp add: carol_payload_def)
  have i: "new_id sample_env \<notin> user_id ` set [sample_user]"
    by (simp add: sample_env_def sample_user_def)
  have a: "googleAuth sample_env ''token-bob'' [sample_user] =
       (\<lparr>status = 200, body = Session ''jwt:id2'' ''id2'' ''bob@x.com'' ''Bob''\<rparr>,
        [sample_user,
         \<lparr>user_id = ''id2'', email = ''bob@x.com'', password = None, googleId = Some ''g-1'',
          name = ''Bob'', dateOfBirth = None, isVerified = True, otp = None, otpExpiry = None\<rparr>])"
    using googleAuth_provisions_once[OF t, of "[sample_user]"] f p i
    by (simp add: sample_env_def bob_payload_def set_email_bob)
  have b: "googleAuth sample_env ''token-ann'' [sample_user] =
       (\<lparr>status = 200, body = Session ''jwt:id1'' ''id1'' ''ann@x.com'' ''Ann''\<rparr>, [sample_user])"
    using googleAuth_provisions_once[OF t', of "[sample_user]"] f'
    by (simp add: sample_env_def sample_user_def)
  have c: "googleAuth sample_env ''token-carol'' [sample_user] =
       (\<lparr>status = 500, body = Error ''Google authentication failed''\<rparr>, [sample_user])"
    using googleAuth_provisions_once[OF t'', of "[sample_user]"] f'' p'' by blast
  show ?thesis using t f p i a t'' f'' p'' c f' b by blast
qed

subsection \<open>Signup with a registered email\<close>

text \<open>
  C4. If a user with the supplied email already exists (the handler's own lookup
  finds one), Signup leaves the collection as it is: no record is created and none is
  modified. It answers 400, and on validated input, which is what the operation is
  specified for (the handler first hands back the input layer's validation errors),
  the answer is the duplicate-identity error \<^verbatim>\<open>User already exists\<close>.
\<close>

theorem signup_duplicate_email:
  assumes "findOne_email db (body_email req) = Some u"
  shows "snd (signup e req db) = db
       \<and> status (fst (signup e req db)) = 400
       \<and> (validationErrors req = [] \<longrightarrow>
            fst (signup e req db) = \<lparr>status = 400, body = Error ''User already exists''\<rparr>)"
  using signup_existing[OF assms, of e] by simp

theorem signup_duplicate_email_witness:
  "findOne_email [sample_user] (body_email (sample_signup\<lparr>body_email := ''Ann@X.com''\<rparr>)) = Some sample_user
   \<and> validationErrors (sample_signup\<lparr>body_email := ''Ann@X.com''\<rparr>) = []
   \<and> snd (signup sample_env (sample_signup\<lparr>body_email := ''Ann@X.com''\<rparr>) [sample_user]) = [sample_user]
   \<and> fst (signup sample_env (sample_signup\<lparr>body_email := ''Ann@X.com''\<rparr>) [sample_user])
       = \<lparr>status = 400, body = Error ''User already exists''\<rparr>"
proof -
  let ?r = "sample_signup\<lparr>body_email := ''Ann@X.com''\<rparr>"
  have f: "findOne_email [sample_user] (body_email ?r) = Some sample_user"
    by (simp add: findOne_email_def set_email_ann sample_user_def)
  have v: "validationErrors ?r = []" by (simp add: sample_signup_def)
  note r = signup_duplicate_email[OF f, of sample_env]
  have a: "snd (signup sample_env ?r [sample_user]) = [sample_user]" using r by blast
  have b: "fst (signup sample_env ?r [sample_user]) = \<lparr>status = 400, body = Error ''User already exists''\<rparr>"
    using r v by blast
  show ?thesis using f v a b by blast
qed

subsection \<open>The stored password\<close>

text \<open>
  C5. The pre-save hook replaces a modified, non-empty password by
  \<^verbatim>\<open>bcrypt.hash(password, 10)\<close> (cost 10) and leaves an unmodified one alone. So every
  record that Signup adds stores \<^verbatim>\<open>bcrypt.hash\<close> of the plaintext the caller supplied,
  at cost 10, which is not that plaintext wherever bcrypt's output differs from its
  input; VerifyOTP, Signin and ResendOTP store no password that was not stored before
  (they write the loaded hash back as it is); GoogleAuth adds at most a record without
  a password. \<^verbatim>\<open>bcrypt.hash\<close> itself is a library function and a parameter here: that
  it is salted and one-way is its contract, not this code's.
\<close>

theorem stored_password_is_bcrypt_hash:
  "(isModified_password \<and> truthy (password u) \<longrightarrow>
      password (pre_save e isModified_password u) = map_option (\<lambda>p. bcrypt_hash e p 10) (password u))
   \<and> (\<not> isModified_password \<longrightarrow> pre_save e isModified_password u = u)
   \<and> (\<forall>v\<in>set (snd (signup e sreq db)). v \<in> set db \<or>
         (\<exists>p. body_password sreq = Some p \<and> p \<noteq> [] \<and> password v = Some (bcrypt_hash e p 10)
              \<and> (bcrypt_hash e p 10 \<noteq> p \<longrightarrow> password v \<noteq> body_password sreq)))
   \<and> (\<forall>v\<in>set (snd (verifyOTP e vreq db)). \<exists>w\<in>set db. password v = password w)
   \<and> (\<forall>v\<in>set (snd (signin e a db)). \<exists>w\<in>set db. password v = password w)
   \<and> (\<forall>v\<in>set (snd (resendOTP e i db)). \<exists>w\<in>set db. password v = password w)
   \<and> (\<forall>v\<in>set (snd (googleAuth e t db)). v \<in> set db \<or> password v = None)"
proof -
  have 1: "isModified_password \<and> truthy (password u) \<longrightarrow>
      password (pre_save e isModified_password u) = map_option (\<lambda>p. bcrypt_hash e p 10) (password u)"
    by (simp add: pre_save_def)
  have 2: "\<not> isModified_password \<longrightarrow> pre_save e isModified_password u = u"
    by (simp add: pre_save_def)
  have 3: "\<forall>v\<in>set (snd (signup e sreq db)). v \<in> set db \<or>
         (\<exists>p. body_password sreq = Some p \<and> p \<noteq> [] \<and> password v = Some (bcrypt_hash e p 10)
              \<and> (bcrypt_hash e p 10 \<noteq> p \<longrightarrow> password v \<noteq> body_password sreq))"
  proof
    fix v assume "v \<in> set (snd (signup e sreq db))"
    from signup_password[OF this] show "v \<in> set db \<or>
         (\<exists>p. body_password sreq = Some p \<and> p \<noteq> [] \<and> password v = Some (bcrypt_hash e p 10)
              \<and> (bcrypt_hash e p 10 \<noteq> p \<longrightarrow> password v \<noteq> body_password sreq))"
      by auto
  qed
  have 4: "\<forall>v\<in>set (snd (verifyOTP e vreq db)). \<exists>w\<in>set db. password v = password w"
    by (auto dest: verifyOTP_password)
  have 5: "\<forall>v\<in>set (snd (signin e a db)). \<exists>w\<in>set db. password v = password w"
    by (auto dest: signin_password)
  have 6: "\<forall>v\<in>set (snd (resendOTP e i db)). \<exists>w\<in>set db. password v = password w"
    by (auto dest: resendOTP_password)
  have 7: "\<forall>v\<in>set (snd (googleAuth e t db)). v \<in> set db \<or> password v = None"
    by (auto dest: googleAuth_written)
  show ?thesis by (intro conjI) (fact 1 2 3 4 5 6 7)+
qed

theorem stored_password_is_bcrypt_hash_witness:
  "snd (signup sample_env sample_signup [sample_user]) =
      [sample_user,
       \<lparr>user_id = ''id2'', email = ''bob@x.com'', password = Some ''$2a$10$hunter22'',
        googleId = None, name = ''Bob'', dateOfBirth = None, isVerified = False,
        otp = Some ''550000'', otpExpiry = Some 601000\<rparr>]
   \<and> body_password sample_signup = Some ''hunter22''
   \<and> bcrypt_hash sample_env ''hunter22'' 10 = ''$2a$10$hunter22''
   \<and> bcrypt_hash sample_env ''hunter22'' 10 \<noteq> ''hunter22''
   \<and> password (last (snd (signup sample_env sample_signup [sample_user]))) \<noteq> body_password sample_signup
   \<and> password (last (snd (signup sample_env sample_signup [sample_user])))
        = Some (bcrypt_hash sample_env ''hunter22'' 10)
   \<and> map password (snd (resendOTP sample_env ''id1'' [sample_user])) = map password [sample_user]"
proof -
  let ?bob = "\<lparr>user_id = ''id2'', email = ''bob@x.com'', password = Some ''$2a$10$hunter22'',
        googleId = None, name = ''Bob'', dateOfBirth = None, isVerified = False,
        otp = Some ''550000'', otpExpiry = Some 601000\<rparr>"
  note r = stored_password_is_bcrypt_hash[of True ?bob sample_env sample_signup "[sample_user]"
      "\<lparr>verify_userId = ''id1'', verify_otp = Some ''123456''\<rparr>" "''Ann@X.com''" "''id1''" "''token-ann''"]
  have s: "snd (signup sample_env sample_signup [sample_user]) = [sample_user, ?bob]"
    by (simp add: signup_sample)
  have p: "body_password sample_signup = Some ''hunter22''" by (simp add: sample_signup_def)
  have b: "bcrypt_hash sample_env ''hunter22'' 10 = ''$2a$10$hunter22''"
    by (simp add: sample_env_def)
  have n: "bcrypt_hash sample_env ''hunter22'' 10 \<noteq> ''hunter22''" by (simp add: b)
  have new: "?bob \<notin> set [sample_user]" by (simp add: sample_user_def)
  have "?bob \<in> set (snd (signup sample_env sample_signup [sample_user]))" by (simp add: s)
  then have "\<exists>q. body_password sample_signup = Some q \<and> q \<noteq> [] \<and> password ?bob = Some (bcrypt_hash sample_env q 10)
              \<and> (bcrypt_hash sample_env q 10 \<noteq> q \<longrightarrow> password ?bob \<noteq> body_password sample_signup)"
    using r new by blast
  then have k: "password ?bob = Some (bcrypt_hash sample_env ''hunter22'' 10)
      \<and> password ?bob \<noteq> body_password sample_signup"
    using p n by auto
  have l: "last (snd (signup sample_env sample_signup [sample_user])) = ?bob" by (simp add: s)
  have m: "map password (snd (resendOTP sample_env ''id1'' [sample_user])) = map password [sample_user]"
    by (simp add: resendOTP_sample)
  show ?thesis using s p b n k l m by (simp only:) simp
qed

subsection \<open>The pairing of code and expiry\<close>

text \<open>
  C6. If on every stored user \<open>otp\<close> and \<open>otpExpiry\<close> are both present or both
  absent, the same holds after each of the five operations. Signup, Signin and
  ResendOTP write records with both present; VerifyOTP writes a record with both
  absent; GoogleAuth keeps every stored record and adds at most records with both
  absent.
\<close>

theorem otp_fields_paired:
  assumes "\<forall>u\<in>set db. (otp u = None) = (otpExpiry u = None)"
  shows "(\<forall>u\<in>set (snd (signup e sreq db)). (otp u = None) = (otpExpiry u = None))
       \<and> (\<forall>u\<in>set (snd (verifyOTP e vreq db)). (otp u = None) = (otpExpiry u = None))
       \<and> (\<forall>u\<in>set (snd (signin e a db)). (otp u = None) = (otpExpiry u = None))
       \<and> (\<forall>u\<in>set (snd (resendOTP e i db)). (otp u = None) = (otpExpiry u = None))
       \<and> (\<forall>u\<in>set (snd (googleAuth e t db)). (otp u = None) = (otpExpiry u = None))
       \<and> (\<forall>u\<in>set (snd (signup e sreq db)). u \<in> set db \<or> (otp u \<noteq> None \<and> otpExpiry u \<noteq> None))
       \<and> (\<forall>u\<in>set (snd (signin e a db)). u \<in> set db \<or> (otp u \<noteq> None \<and> otpExpiry u \<noteq> None))
       \<and> (\<forall>u\<in>set (snd (resendOTP e i db)). u \<in> set db \<or> (otp u \<noteq> None \<and> otpExpiry u \<noteq> None))
       \<and> (\<forall>u\<in>set (snd (verifyOTP e vreq db)). u \<in> set db \<or> (otp u = None \<and> otpExpiry u = None))
       \<and> snd (googleAuth e t db) = db @ drop (length db) (snd (googleAuth e t db))
       \<and> (\<forall>u\<in>set (drop (length db) (snd (googleAuth e t db))). otp u = None \<and> otpExpiry u = None)"
proof -
  have 1: "\<forall>u\<in>set (snd (signup e sreq db)). u \<in> set db \<or> (otp u \<noteq> None \<and> otpExpiry u \<noteq> None)"
    using signup_written[of _ e sreq db] by auto
  have 2: "\<forall>u\<in>set (snd (signin e a db)). u \<in> set db \<or> (otp u \<noteq> None \<and> otpExpiry u \<noteq> None)"
    using signin_written[of _ e a db] by auto
  have 3: "\<forall>u\<in>set (snd (resendOTP e i db)). u \<in> set db \<or> (otp u \<noteq> None \<and> otpExpiry u \<noteq> None)"
    using resendOTP_written[of _ e i db] by auto
  have 4: "\<forall>u\<in>set (snd (verifyOTP e vreq db)). u \<in> set db \<or> (otp u = None \<and> otpExpiry u = None)"
    using verifyOTP_written[of _ e vreq db] by auto
  have 5: "snd (googleAuth e t db) = db @ drop (length db) (snd (googleAuth e t db))"
    using googleAuth_db[of e t db] by auto
  have 6: "\<forall>u\<in>set (drop (length db) (snd (googleAuth e t db))). otp u = None \<and> otpExpiry u = None"
    using googleAuth_db[of e t db] by auto
  have 7: "\<forall>u\<in>set (snd (googleAuth e t db)). (otp u = None) = (otpExpiry u = None)"
    using googleAuth_written[of _ e t db] assms by auto
  have 8: "\<forall>u\<in>set (snd (signup e sreq db)). (otp u = None) = (otpExpiry u = None)"
    using 1 assms by auto
  have 9: "\<forall>u\<in>set (snd (signin e a db)). (otp u = None) = (otpExpiry u = None)"
    using 2 assms by auto
  have 10: "\<forall>u\<in>set (snd (resendOTP e i db)). (otp u = None) = (otpExpiry u = None)"
    using 3 assms by auto
  have 11: "\<forall>u\<in>set (snd (verifyOTP e vreq db)). (otp u = None) = (otpExpiry u = None)"
    using 4 assms by auto
  show ?thesis using 1 2 3 4 5 6 7 8 9 10 11 by blast
qed

theorem otp_fields_paired_witness:
  "(otp sample_user = None) = (otpExpiry sample_user = None)
   \<and> snd (resendOTP sample_env ''id1'' [sample_user])
       = [sample_user\<lparr>otp := Some ''550000'', otpExpiry := Some 601000\<rparr>]
   \<and> (otp (sample_user\<lparr>otp := Some ''550000'', otpExpiry := Some 601000\<rparr>) = None)
       = (otpExpiry (sample_user\<lparr>otp := Some ''550000'', otpExpiry := Some 601000\<rparr>) = None)
   \<and> snd (verifyOTP sample_env \<lparr>verify_userId = ''id1'', verify_otp = Some ''123456''\<rparr> [sample_user])
       = [sample_user\<lparr>isVerified := True, otp := None, otpExpiry := None\<rparr>]
   \<and> (otp (sample_user\<lparr>isVerified := True, otp := None, otpExpiry := None\<rparr>) = None)
       = (otpExpiry (sample_user\<lparr>isVerified := True, otp := None, otpExpiry := None\<rparr>) = None)"
proof -
  have h: "\<forall>u\<in>set [sample_user]. (otp u = None) = (otpExpiry u = None)"
    by (simp add: sample_user_def)
  note r = otp_fields_paired[OF h, of sample_env sample_signup
      "\<lparr>verify_userId = ''id1'', verify_otp = Some ''123456''\<rparr>" "''Ann@X.com''" "''id1''" "''token-ann''"]
  have a: "snd (resendOTP sample_env ''id1'' [sample_user])
       = [sample_user\<lparr>otp := Some ''550000'', otpExpiry := Some 601000\<rparr>]"
    by (simp add: resendOTP_sample)
  have b: "snd (verifyOTP sample_env \<lparr>verify_userId = ''id1'', verify_otp = Some ''123456''\<rparr> [sample_user])
       = [sample_user\<lparr>isVerified := True, otp := None, otpExpiry := None\<rparr>]"
    using verifyOTP_at_expiry_sample by simp
  have c: "(otp (sample_user\<lparr>otp := Some ''550000'', otpExpiry := Some 601000\<rparr>) = None)
       = (otpExpiry (sample_user\<lparr>otp := Some ''550000'', otpExpiry := Some 601000\<rparr>) = None)"
    using r a by simp
  have d: "(otp (sample_user\<lparr>isVerified := True, otp := None, otpExpiry := None\<rparr>) = None)
       = (otpExpiry (sample_user\<lparr>isVerified := True, otp := None, otpExpiry := None\<rparr>) = None)"
    using r b by simp
  have e: "(otp sample_user = None) = (otpExpiry sample_user = None)" using h by simp
  show ?thesis using e a b c d by blast
qed

subsection \<open>Issuing a new code over an old one\<close>




subsection \<open>comparePassword without a hash\<close>

text \<open>
  C8. \<^verbatim>\<open>comparePassword\<close> fails closed: for a user with no stored password hash it
  returns false, whatever the plaintext and whatever \<^verbatim>\<open>bcrypt.compare\<close> would say.
\<close>

theorem comparePassword_fails_closed:
  "password u = None \<Longrightarrow> comparePassword e u pw = False"
  by (simp add: comparePassword_def truthy_def)

theorem comparePassword_fails_closed_witness:
  "password (sample_user\<lparr>password := None\<rparr>) = None
   \<and> comparePassword sample_env (sample_user\<lparr>password := None\<rparr>) ''secret1'' = False"
  using comparePassword_fails_closed [of "sample_user\<lparr>password := None\<rparr>" sample_env "''secret1''"]
  by simp

subsection \<open>GoogleAuth on an existing user\<close>

text \<open>
  C9. When GoogleAuth finds an existing user by the verified email it writes nothing:
  the collection after the call is the collection before it, so \<open>googleId\<close>,
  \<open>isVerified\<close> and every other field of that user are as they were, and a
  session token for that user's id is returned whatever the user's \<open>isVerified\<close>
  and \<open>googleId\<close> are (the sample user is unverified and has no \<open>googleId\<close>).
\<close>

theorem googleAuth_existing_user_untouched:
  assumes "verifyIdToken e token = Ticket (Some p)" and "findOne_email db (payload_email p) = Some u"
  shows "snd (googleAuth e token db) = db
       \<and> fst (googleAuth e token db) =
           \<lparr>status = 200, body = Session (generateToken e (user_id u)) (user_id u) (email u) (name u)\<rparr>"
  using googleAuth_existing[OF assms] by (simp add: generateToken_def)

theorem googleAuth_existing_user_untouched_witness:
  "verifyIdToken sample_env ''token-ann'' = Ticket (Some ann_payload)
   \<and> findOne_email [sample_user] (payload_email ann_payload) = Some sample_user
   \<and> isVerified sample_user = False \<and> googleId sample_user = None
   \<and> snd (googleAuth sample_env ''token-ann'' [sample_user]) = [sample_user]
   \<and> fst (googleAuth sample_env ''token-ann'' [sample_user])
       = \<lparr>status = 200, body = Session ''jwt:id1'' ''id1'' ''ann@x.com'' ''Ann''\<rparr>"
proof -
  have t: "verifyIdToken sample_env ''token-ann'' = Ticket (Some ann_payload)"
    by (simp add: sample_env_def)
  have f: "findOne_email [sample_user] (payload_email ann_payload) = Some sample_user"
    by (simp add: findOne_email_def ann_payload_def set_email_ann sample_user_def)
  have u: "isVerified sample_user = False" "googleId sample_user = None"
    by (simp_all add: sample_user_def)
  note r = googleAuth_existing_user_untouched[OF t f]
  have a: "snd (googleAuth sample_env ''token-ann'' [sample_user]) = [sample_user]"
    using r by blast
  have b: "fst (googleAuth sample_env ''token-ann'' [sample_user])
       = \<lparr>status = 200, body = Session ''jwt:id1'' ''id1'' ''ann@x.com'' ''Ann''\<rparr>"
    using r by (simp add: generateToken_def sample_env_def sample_user_def)
  show ?thesis using t f u a b by blast
qed

subsection \<open>Signup when the dispatch fails\<close>

text \<open>
  C10. Signup saves the new user before it dispatches the code. If the dispatch then
  fails, the caller gets the error 500 \<^verbatim>\<open>Failed to create account\<close>, but the user,
  with its code and expiry, stays in the collection, and every later Signup with the
  same email (and a request that passes validation) is refused as a duplicate instead
  of creating the account again. The assumptions are those under which the save goes
  through: a valid request, an email not yet registered, a non-empty name and password,
  a fresh \<^verbatim>\<open>_id\<close>.
\<close>

theorem signup_mail_failure_keeps_user:
  assumes "validationErrors req = []" and "findOne_email db (body_email req) = None"
    and "set_email (body_email req) \<noteq> []" and "body_name req \<noteq> []"
    and "body_password req = Some pw" and "pw \<noteq> []"
    and "new_id e \<notin> user_id ` set db"
    and "\<not> sendMail e (body_email req) (generateOTP (math_random e))"
  shows "signup e req db =
           (\<lparr>status = 500, body = Error ''Failed to create account''\<rparr>,
            db @ [\<lparr>user_id = new_id e, email = set_email (body_email req),
                    password = Some (bcrypt_hash e pw 10), googleId = None, name = body_name req,
                    dateOfBirth = body_dateOfBirth req, isVerified = False,
                    otp = Some (generateOTP (math_random e)),
                    otpExpiry = Some (now e + 10 * 60 * 1000)\<rparr>])
       \<and> (\<forall>e' req'. body_email req' = body_email req \<and> validationErrors req' = [] \<longrightarrow>
             signup e' req' (snd (signup e req db)) =
               (\<lparr>status = 400, body = Error ''User already exists''\<rparr>, snd (signup e req db)))"
proof -
  let ?u = "\<lparr>user_id = new_id e, email = set_email (body_email req),
                    password = Some (bcrypt_hash e pw 10), googleId = None, name = body_name req,
                    dateOfBirth = body_dateOfBirth req, isVerified = False,
                    otp = Some (generateOTP (math_random e)),
                    otpExpiry = Some (now e + 10 * 60 * 1000)\<rparr>"
  have first: "signup e req db = (\<lparr>status = 500, body = Error ''Failed to create account''\<rparr>, db @ [?u])"
    using signup_new[OF assms(1-7)] assms(8) by simp
  have again: "signup e' req' (db @ [?u]) = (\<lparr>status = 400, body = Error ''User already exists''\<rparr>, db @ [?u])"
    if "body_email req' = body_email req" and "validationErrors req' = []" for e' req'
  proof -
    have "findOne_email (db @ [?u]) (body_email req') \<noteq> None"
      by (rule findOne_email_append) (simp add: that(1))
    then obtain w where "findOne_email (db @ [?u]) (body_email req') = Some w" by blast
    from signup_existing[OF this, of e'] that(2) show ?thesis by simp
  qed
  show ?thesis using first again by simp
qed

theorem signup_mail_failure_keeps_user_witness:
  "validationErrors sample_signup = []
   \<and> findOne_email [sample_user] (body_email sample_signup) = None
   \<and> set_email (body_email sample_signup) \<noteq> [] \<and> body_name sample_signup \<noteq> []
   \<and> body_password sample_signup = Some ''hunter22'' \<and> ''hunter22'' \<noteq> []
   \<and> new_id sample_env \<notin> user_id ` set [sample_user]
   \<and> \<not> sendMail (sample_env\<lparr>sendMail := \<lambda>a c. False\<rparr>) (body_email sample_signup)
         (generateOTP (math_random (sample_env\<lparr>sendMail := \<lambda>a c. False\<rparr>)))
   \<and> signup (sample_env\<lparr>sendMail := \<lambda>a c. False\<rparr>) sample_signup [sample_user] =
       (\<lparr>status = 500, body = Error ''Failed to create account''\<rparr>,
        [sample_user,
         \<lparr>user_id = ''id2'', email = ''bob@x.com'', password = Some ''$2a$10$hunter22'',
          googleId = None, name = ''Bob'', dateOfBirth = None, isVerified = False,
          otp = Some ''550000'', otpExpiry = Some 601000\<rparr>])
   \<and> signup (sample_env\<lparr>new_id := ''id3''\<rparr>) sample_signup
         (snd (signup (sample_env\<lparr>sendMail := \<lambda>a c. False\<rparr>) sample_signup [sample_user])) =
       (\<lparr>status = 400, body = Error ''User already exists''\<rparr>,
        snd (signup (sample_env\<lparr>sendMail := \<lambda>a c. False\<rparr>) sample_signup [sample_user]))"
proof -
  let ?e = "sample_env\<lparr>sendMail := \<lambda>a c. False\<rparr>"
  have h1: "validationErrors sample_signup = []" by (simp add: sample_signup_def)
  have h2: "findOne_email [sample_user] (body_email sample_signup) = None"
    by (simp add: findOne_email_def sample_signup_def set_email_bob sample_user_def)
  have h3: "set_email (body_email sample_signup) \<noteq> []" "body_name sample_signup \<noteq> []"
    by (simp_all add: sample_signup_def set_email_bob)
  have h5: "body_password sample_signup = Some ''hunter22''" "''hunter22'' \<noteq> []"
    by (simp_all add: sample_signup_def)
  have h7: "new_id sample_env \<notin> user_id ` set [sample_user]" "new_id ?e \<notin> user_id ` set [sample_user]"
    by (simp_all add: sample_env_def sample_user_def)
  have h8: "\<not> sendMail ?e (body_email sample_signup) (generateOTP (math_random ?e))" by simp
  note r = signup_mail_failure_keeps_user[OF h1 h2 h3 h5 h7(2) h8]
  have a: "signup ?e sample_signup [sample_user] =
       (\<lparr>status = 500, body = Error ''Failed to create account''\<rparr>,
        [sample_user,
         \<lparr>user_id = ''id2'', email = ''bob@x.com'', password = Some ''$2a$10$hunter22'',
          googleId = None, name = ''Bob'', dateOfBirth = None, isVerified = False,
          otp = Some ''550000'', otpExpiry = Some 601000\<rparr>])"
    using r by (simp add: sample_env_def sample_signup_def set_email_bob generateOTP_half_Suc)
  have b: "signup (sample_env\<lparr>new_id := ''id3''\<rparr>) sample_signup (snd (signup ?e sample_signup [sample_user])) =
       (\<lparr>status = 400, body = Error ''User already exists''\<rparr>, snd (signup ?e sample_signup [sample_user]))"
    using r h1 by blast
  show ?thesis using h1 h2 h3 h5 h7(1) h8 a b by blast
qed

end
